theory Spec2Isabelle
  imports Complex_Main "HOL-Library.Sublist"
begin

section \<open>JavaScript values\<close>

text \<open>
  The monitor is \<^verbatim>\<open>src/system-health-monitor.js\<close>. Its numbers are JavaScript numbers.
  A finite number is modelled by its exact value, a rational; \<open>NaN\<close> is a value of its
  own, since \<^verbatim>\<open>parseFloat\<close> and \<^verbatim>\<open>parseInt\<close> return it for text that does not start
  with a number. The infinities are left out: the samples are parsed from the decimal
  output of \<^verbatim>\<open>awk\<close> and the timestamps from the digits the monitor wrote itself.
  Timestamps (\<^verbatim>\<open>Date.now()\<close>) and the constants are integers.
\<close>

datatype jsnum = Num rat | NaN

text \<open>\<^verbatim>\<open>a >= b\<close>: false as soon as one side is \<open>NaN\<close>.\<close>

fun js_ge :: "jsnum \<Rightarrow> jsnum \<Rightarrow> bool" where
  "js_ge (Num a) (Num b) = (b \<le> a)"
| "js_ge _ _ = False"

text \<open>\<^verbatim>\<open>a - b\<close>: \<open>NaN\<close> as soon as one side is \<open>NaN\<close>.\<close>

fun js_sub :: "jsnum \<Rightarrow> jsnum \<Rightarrow> jsnum" where
  "js_sub (Num a) (Num b) = Num (a - b)"
| "js_sub _ _ = NaN"

text \<open>
  The built-ins of the JavaScript runtime that the monitor calls and that are not
  modelled here are parameters: every theorem holds for any runtime.
  \<open>numToString\<close> is the conversion of a number to text in a template literal
  (\<^verbatim>\<open>${proc.cpu}\<close>); \<open>js_divide\<close> is \<^verbatim>\<open>a / b\<close>, the quotient rounded to a double.
  Comparison and the subtraction of the timestamps are exact on the values the
  monitor meets (integers far below \<open>2^53\<close>), and are modelled by the exact ones.
\<close>

record runtime =
  parseFloat :: "string \<Rightarrow> jsnum"
  parseInt :: "string \<Rightarrow> jsnum"
  numToString :: "jsnum \<Rightarrow> string"
  js_divide :: "jsnum \<Rightarrow> jsnum \<Rightarrow> jsnum"

text \<open>
  A string is a list of code units; \<open>length\<close> and \<open>take\<close> count them as
  \<^verbatim>\<open>.length\<close> and \<^verbatim>\<open>.substring\<close> do. The glyphs of the source's literals outside
  ASCII (the emoji of the titles, the bullet) are written as the bytes the source
  file stores for them; nothing below depends on their length.
\<close>

definition is_js_space :: "char \<Rightarrow> bool" where
  "is_js_space c = (c = CHR 0x09 \<or> c = CHR 0x0A \<or> c = CHR 0x0B \<or> c = CHR 0x0C
     \<or> c = CHR 0x0D \<or> c = CHR 0x20 \<or> c = CHR 0xA0)"

text \<open>\<^verbatim>\<open>String.prototype.trim\<close>\<close>

definition trim :: "string \<Rightarrow> string" where
  "trim s = rev (dropWhile is_js_space (rev (dropWhile is_js_space s)))"

text \<open>\<^verbatim>\<open>Array.prototype.join\<close>\<close>

fun join :: "string \<Rightarrow> string list \<Rightarrow> string" where
  "join sep [] = ''''"
| "join sep [x] = x"
| "join sep (x # y # zs) = x @ sep @ join sep (y # zs)"

definition digit_char :: "nat \<Rightarrow> char" where
  "digit_char d = ''0123456789'' ! d"

text \<open>The decimal digits of a natural number, and of an integer (the text of an
  integer-valued number below \<open>10^21\<close>, such as \<^verbatim>\<open>${index + 1}\<close>,
  \<^verbatim>\<open>${CPU_THRESHOLD}\<close> and \<^verbatim>\<open>Date.now().toString()\<close>).\<close>

fun show_nat :: "nat \<Rightarrow> string" where
  "show_nat n = (if n < 10 then [digit_char n] else show_nat (n div 10) @ [digit_char (n mod 10)])"

declare show_nat.simps [simp del]

definition show_int :: "int \<Rightarrow> string" where
  "show_int i = (if i < 0 then ''-'' @ show_nat (nat (- i)) else show_nat (nat i))"

text \<open>
  \<^verbatim>\<open>x.toFixed(1)\<close>, after ECMAScript's \<^verbatim>\<open>Number.prototype.toFixed\<close>: the sign, then for
  a magnitude below \<open>10^21\<close> the integer \<open>n\<close> nearest to ten times the magnitude
  (the larger one of two), written with a point before its last digit; from \<open>10^21\<close>
  on the number's ordinary text.
\<close>

definition toFixed1 :: "runtime \<Rightarrow> jsnum \<Rightarrow> string" where
  "toFixed1 rt x = (case x of
      NaN \<Rightarrow> ''NaN''
    | Num q \<Rightarrow>
       (let s = (if q < 0 then ''-'' else ''''); a = \<bar>q\<bar> in
        if 10 ^ 21 \<le> a then s @ numToString rt (Num a)
        else (let n = nat \<lfloor>a * 10 + 1 / 2\<rfloor>
              in s @ show_nat (n div 10) @ ''.'' @ show_nat (n mod 10))))"

section \<open>The process list formatter\<close>

text \<open>A process record, as \<^verbatim>\<open>getTopCpuProcesses\<close> and \<^verbatim>\<open>getTopMemoryProcesses\<close>
  build it (lines 42-54): \<open>p_cpu\<close> and \<open>p_mem\<close> are parsed numbers, the other fields
  are the words of the \<^verbatim>\<open>ps\<close> line.\<close>

record proc =
  p_user :: string
  p_pid :: string
  p_cpu :: jsnum
  p_mem :: jsnum
  p_vsz :: string
  p_rss :: string
  p_tty :: string
  p_stat :: string
  p_start :: string
  p_time :: string
  p_command :: string

text \<open>Line 219: the command as displayed.\<close>

definition shortCommand :: "string \<Rightarrow> string" where
  "shortCommand command =
     (if length command > 50 then take 47 command @ ''...'' else command)"

text \<open>Line 220: the entry of the process at \<open>index\<close> (from 0).\<close>

definition formatProcess :: "runtime \<Rightarrow> string \<Rightarrow> nat \<Rightarrow> proc \<Rightarrow> string" where
  "formatProcess rt type index pr =
     show_nat (index + 1) @ ''. *'' @ shortCommand (p_command pr) @ ''*\<newline>   PID: '' @ p_pid pr
       @ '' | User: '' @ p_user pr @ '' | ''
       @ (if type = ''cpu'' then ''CPU: '' @ numToString rt (p_cpu pr) @ ''%''
          else ''Memory: '' @ numToString rt (p_mem pr) @ ''%'')
       @ '' | RSS: '' @ p_rss pr"

text \<open>Lines 215-222. \<open>None\<close> is \<^verbatim>\<open>null\<close>.\<close>

definition formatProcessList :: "runtime \<Rightarrow> proc list option \<Rightarrow> string \<Rightarrow> string" where
  "formatProcessList rt processes type = (case processes of
      None \<Rightarrow> ''No processes found''
    | Some ps \<Rightarrow>
        if length ps = 0 then ''No processes found''
        else join ''\<newline>'' (map (\<lambda>(index, pr). formatProcess rt type index pr) (enumerate 0 ps)))"

section \<open>Configuration (lines 17-22)\<close>

definition CPU_THRESHOLD :: int where "CPU_THRESHOLD = 90"
definition MEM_THRESHOLD :: int where "MEM_THRESHOLD = 90"
definition SWAP_THRESHOLD :: int where "SWAP_THRESHOLD = 50"
definition CPU_OVER_THRESHOLD_DURATION :: int where "CPU_OVER_THRESHOLD_DURATION = 5 * 60 * 1000"
definition ALERT_COOLDOWN :: int where "ALERT_COOLDOWN = 30 * 60 * 1000"

section \<open>The host and the monitor's state\<close>

text \<open>The records the detail providers return (lines 80-87, 138-142, 154-158, 181-188).\<close>

record mem_info =
  mi_total :: string
  mi_used :: string
  mi_free :: string
  mi_shared :: string
  mi_cache :: string
  mi_available :: string

record swap_info =
  sw_total :: string
  sw_used :: string
  sw_free :: string

record load_avg =
  load_1min :: jsnum
  load_5min :: jsnum
  load_15min :: jsnum

record disk_usage =
  du_filesystem :: string
  du_size :: string
  du_used :: string
  du_available :: string
  du_usagePercent :: string
  du_mountpoint :: string

text \<open>
  An alert descriptor (lines 276-286) and its fields; \<open>a_value\<close> is the body.
  \<open>a_fields\<close> is optional because \<^verbatim>\<open>sendSlackAlert\<close> reads \<^verbatim>\<open>alert.fields || []\<close>.
  An attachment and the message are what lines 235-246 build.
\<close>

record alert_field =
  f_title :: string
  f_value :: string
  f_short :: bool

record alert =
  a_title :: string
  a_value :: string
  a_fields :: "alert_field list option"

record attachment =
  at_color :: string
  at_title :: string
  at_text :: string
  at_fields :: "alert_field list"
  at_ts :: int

record message =
  m_text :: string
  m_attachments :: "attachment list"

datatype log_line = Out string | Err string

text \<open>
  What \<^verbatim>\<open>fs.writeFileSync\<close> does with a text: it opens the file with the flag
  \<^verbatim>\<open>'w'\<close>, which creates or truncates it, writes the text and closes the file. It
  returns, or throws at the open, or throws after the open with only the first \<open>n\<close>
  code units of the text written (with none: an empty file).
\<close>

datatype write_answer = Written | ThrowsAtOpen string | ThrowsAfterOpen string nat

text \<open>
  What the machine answers during one cycle. A call that can throw answers
  \<open>Inl\<close> with the error's message or \<open>Inr\<close> with its result. The providers of
  process lists, details, uptime, load and disk usage are collaborators: the host
  gives what they return (\<open>None\<close> is \<^verbatim>\<open>null\<close>), and the lines they log themselves are
  not modelled. \<open>date_now\<close> is \<^verbatim>\<open>Date.now()\<close> at line 265, \<open>attach_now i\<close> at line
  240 for the \<open>i\<close>-th alert, \<open>write_now\<close> at line 209.
\<close>

record host =
  exec_cpu :: "string + string"
  exec_mem :: "string + string"
  exec_swap :: "string + string"
  date_now :: int
  getTopCpuProcesses :: "nat \<Rightarrow> proc list"
  getDetailedMemoryInfo :: "mem_info option"
  getTopMemoryProcesses :: "nat \<Rightarrow> proc list"
  getDetailedSwapInfo :: "swap_info option"
  readFileSync_error :: "string option"
  hostname :: string
  getUptime :: "string option"
  getSystemLoad :: "load_avg option"
  getDiskUsage :: "disk_usage option"
  attach_now :: "nat \<Rightarrow> int"
  axios_post :: "message \<Rightarrow> string + unit"
  write_now :: int
  writeFileSync_answer :: write_answer

text \<open>
  What lasts from one cycle to the next: the module variable of line 258
  (\<open>None\<close> is \<^verbatim>\<open>null\<close>), the file \<^verbatim>\<open>.last_health_alert\<close> (\<open>None\<close> when it does not
  exist), the console, and the messages handed to \<^verbatim>\<open>axios.post\<close>.
\<close>

record world =
  cpuOverThresholdSince :: "int option"
  last_alert_file :: "string option"
  console :: "log_line list"
  posted :: "message list"

definition say :: "log_line list \<Rightarrow> world \<Rightarrow> world" where
  "say ls w = w\<lparr>console := console w @ ls\<rparr>"

section \<open>The metric providers (lines 26-34, 64-72, 122-130)\<close>

definition getCpuUsage :: "runtime \<Rightarrow> host \<Rightarrow> jsnum option \<times> log_line list" where
  "getCpuUsage rt h = (case exec_cpu h of
      Inr output \<Rightarrow> (Some (parseFloat rt (trim output)), [])
    | Inl msg \<Rightarrow> (None, [Err (''Error getting CPU usage: '' @ msg)]))"

definition getMemUsage :: "runtime \<Rightarrow> host \<Rightarrow> jsnum option \<times> log_line list" where
  "getMemUsage rt h = (case exec_mem h of
      Inr output \<Rightarrow> (Some (parseFloat rt (trim output)), [])
    | Inl msg \<Rightarrow> (None, [Err (''Error getting memory usage: '' @ msg)]))"

definition getSwapUsage :: "runtime \<Rightarrow> host \<Rightarrow> jsnum option \<times> log_line list" where
  "getSwapUsage rt h = (case exec_swap h of
      Inr output \<Rightarrow> (Some (parseFloat rt (trim output)), [])
    | Inl msg \<Rightarrow> (None, [Err (''Error getting swap usage: '' @ msg)]))"

section \<open>The persisted last-alert time (lines 195-213)\<close>

text \<open>
  \<^verbatim>\<open>getLastAlertTime\<close>: the file exists or not (\<^verbatim>\<open>existsSync\<close>); reading it may throw,
  which the \<^verbatim>\<open>catch\<close> logs before line 204 returns 0.
\<close>

definition getLastAlertTime :: "runtime \<Rightarrow> host \<Rightarrow> world \<Rightarrow> jsnum \<times> log_line list" where
  "getLastAlertTime rt h w = (case last_alert_file w of
      Some timestamp \<Rightarrow>
        (case readFileSync_error h of
           None \<Rightarrow> (parseInt rt timestamp, [])
         | Some msg \<Rightarrow> (Num 0, [Err (''Error reading last alert time: '' @ msg)]))
    | None \<Rightarrow> (Num 0, []))"

text \<open>
  \<^verbatim>\<open>fs.writeFileSync(LAST_ALERT_FILE, text)\<close>: \<open>Inr\<close> with the file replaced, or \<open>Inl\<close>
  with the error's message and the world the exception leaves: the file as before
  when the open failed, the text written so far when a later step failed.
\<close>

definition writeFileSync :: "host \<Rightarrow> string \<Rightarrow> world \<Rightarrow> (string \<times> world) + world" where
  "writeFileSync h data w = (case writeFileSync_answer h of
      Written \<Rightarrow> Inr (w\<lparr>last_alert_file := Some data\<rparr>)
    | ThrowsAtOpen msg \<Rightarrow> Inl (msg, w)
    | ThrowsAfterOpen msg n \<Rightarrow> Inl (msg, w\<lparr>last_alert_file := Some (take n data)\<rparr>))"

text \<open>\<^verbatim>\<open>setLastAlertTime\<close>; \<open>Inl\<close> would be an exception that leaves the function.\<close>

definition setLastAlertTime :: "host \<Rightarrow> world \<Rightarrow> string + world" where
  "setLastAlertTime h w = (case writeFileSync h (show_int (write_now h)) w of
      Inr w' \<Rightarrow> Inr w'
    | Inl (msg, w') \<Rightarrow> Inr (say [Err (''Error writing last alert time: '' @ msg)] w'))"

section \<open>The alert composer and the transport (lines 224-255)\<close>

text \<open>Lines 230-233: the header, and a line for each context value that is truthy
  (an empty uptime string is not).\<close>

definition messageText :: "runtime \<Rightarrow> host \<Rightarrow> string" where
  "messageText rt h =
     (let text0 = [CHR 0xF0, CHR 0x9F, CHR 0x9A, CHR 0xA8] @ '' *System Health Alert on '' @ hostname h @ ''*'';
          text1 = (case getUptime h of
                     Some uptime \<Rightarrow>
                       if uptime \<noteq> [] then text0 @ ''\<newline>'' @ [CHR 0xE2, CHR 0x8F, CHR 0xB0] @ '' Uptime: '' @ uptime
                       else text0
                   | None \<Rightarrow> text0);
          text2 = (case getSystemLoad h of
                     Some load \<Rightarrow> text1 @ ''\<newline>'' @ [CHR 0xF0, CHR 0x9F, CHR 0x93, CHR 0x8A] @ '' Load: ''
                        @ numToString rt (load_1min load) @ '' (1m), ''
                        @ numToString rt (load_5min load) @ '' (5m), ''
                        @ numToString rt (load_15min load) @ '' (15m)''
                   | None \<Rightarrow> text1)
      in (case getDiskUsage h of
            Some disk \<Rightarrow> text2 @ ''\<newline>'' @ [CHR 0xF0, CHR 0x9F, CHR 0x92, CHR 0xBE] @ '' Root Disk: ''
               @ du_used disk @ ''/'' @ du_size disk @ '' ('' @ du_usagePercent disk @ '')''
          | None \<Rightarrow> text2))"

text \<open>Lines 235-241: one attachment per alert, in the alerts' order.\<close>

definition attachmentOf :: "host \<Rightarrow> nat \<Rightarrow> alert \<Rightarrow> attachment" where
  "attachmentOf h i a =
     \<lparr>at_color = ''danger'', at_title = a_title a, at_text = a_value a,
      at_fields = (case a_fields a of Some fs \<Rightarrow> fs | None \<Rightarrow> []),
      at_ts = attach_now h i div 1000\<rparr>"

definition composeMessage :: "runtime \<Rightarrow> host \<Rightarrow> alert list \<Rightarrow> message" where
  "composeMessage rt h alerts =
     \<lparr>m_text = messageText rt h,
      m_attachments = map (\<lambda>(i, a). attachmentOf h i a) (enumerate 0 alerts)\<rparr>"

text \<open>
  \<^verbatim>\<open>sendSlackAlert\<close>, run to its end: the message is handed to \<^verbatim>\<open>axios.post\<close>; when the
  promise resolves the send is logged and \<^verbatim>\<open>setLastAlertTime\<close> runs, when it rejects
  the \<^verbatim>\<open>catch\<close> logs the error, as it would log an exception of the two lines after
  the \<^verbatim>\<open>await\<close>. \<open>Inl\<close> would be a rejection of the function's own promise.
\<close>

definition sendSlackAlert :: "runtime \<Rightarrow> host \<Rightarrow> alert list \<Rightarrow> world \<Rightarrow> string + world" where
  "sendSlackAlert rt h alerts w =
     (let message = composeMessage rt h alerts;
          w1 = w\<lparr>posted := posted w @ [message]\<rparr>
      in case axios_post h message of
           Inr _ \<Rightarrow>
             (let w2 = say [Out (''Slack alert sent: '' @ join '', '' (map a_title alerts))] w1
              in case setLastAlertTime h w2 of
                   Inr w3 \<Rightarrow> Inr w3
                 | Inl msg \<Rightarrow> Inr (say [Err (''Error sending Slack message: '' @ msg)] w2))
         | Inl msg \<Rightarrow> Inr (say [Err (''Error sending Slack message: '' @ msg)] w1))"

section \<open>The evaluation cycle (lines 260-361)\<close>

definition cpuTitle :: string where
  "cpuTitle = [CHR 0xF0, CHR 0x9F, CHR 0x9A, CHR 0x80] @ '' High CPU Usage Detected''"

definition memTitle :: string where
  "memTitle = [CHR 0xF0, CHR 0x9F, CHR 0xA7, CHR 0xA0] @ '' High Memory Usage Detected''"

definition swapTitle :: string where
  "swapTitle = [CHR 0xF0, CHR 0x9F, CHR 0x92, CHR 0xBE] @ '' High Swap Usage Detected''"

definition bullet :: string where
  "bullet = [CHR 0xE2, CHR 0x80, CHR 0xA2]"

text \<open>\<^verbatim>\<open>((now - cpuOverThresholdSince) / 60000)\<close>: the elapsed minutes.\<close>

definition minutes :: "runtime \<Rightarrow> int \<Rightarrow> jsnum" where
  "minutes rt ms = js_divide rt (Num (of_int ms)) (Num 60000)"

text \<open>Lines 276-286.\<close>

definition cpuAlert :: "runtime \<Rightarrow> host \<Rightarrow> jsnum \<Rightarrow> int \<Rightarrow> int \<Rightarrow> alert" where
  "cpuAlert rt h cpu now since =
     (let topProcesses = getTopCpuProcesses h 8;
          processDetails = formatProcessList rt (Some topProcesses) ''cpu''
      in \<lparr>a_title = cpuTitle,
          a_value = ''*Current CPU Usage: '' @ toFixed1 rt cpu @ ''%*\<newline>*Threshold: ''
             @ show_int CPU_THRESHOLD @ ''%*\<newline>*Duration: '' @ toFixed1 rt (minutes rt (now - since))
             @ '' minutes*\<newline>\<newline>*Top CPU Processes:*\<newline>'' @ processDetails,
          a_fields = Some
            [\<lparr>f_title = ''System Impact'',
              f_value = ''High CPU usage can cause system slowdown, increased response times, and potential service degradation.'',
              f_short = False\<rparr>]\<rparr>)"

text \<open>
  Lines 268-292: the alerts pushed, the new \<^verbatim>\<open>cpuOverThresholdSince\<close> and the lines
  logged. \<^verbatim>\<open>!cpuOverThresholdSince\<close> holds for \<^verbatim>\<open>null\<close> and for 0.
\<close>

definition cpuBranch ::
  "runtime \<Rightarrow> host \<Rightarrow> jsnum option \<Rightarrow> int \<Rightarrow> int option \<Rightarrow> alert list \<times> int option \<times> log_line list" where
  "cpuBranch rt h cpu now since0 = (case cpu of
      None \<Rightarrow> ([], None, [])
    | Some c \<Rightarrow>
        if js_ge c (Num (of_int CPU_THRESHOLD)) then
          (let since = (case since0 of None \<Rightarrow> now | Some t \<Rightarrow> if t = 0 then now else t)
           in if now - since \<ge> CPU_OVER_THRESHOLD_DURATION
              then ([cpuAlert rt h c now since], Some since, [])
              else ([], Some since,
                    [Out (''CPU over threshold, but not for 5 minutes yet (''
                          @ toFixed1 rt (minutes rt (now - since)) @ '' min)'')]))
        else ([], None, []))"

text \<open>Lines 294-323.\<close>

definition memBranch :: "runtime \<Rightarrow> host \<Rightarrow> jsnum option \<Rightarrow> alert list" where
  "memBranch rt h mem = (case mem of
      None \<Rightarrow> []
    | Some m \<Rightarrow>
        if js_ge m (Num (of_int MEM_THRESHOLD)) then
          (let detailedMem = getDetailedMemoryInfo h;
               topProcesses = getTopMemoryProcesses h 8;
               processDetails = formatProcessList rt (Some topProcesses) ''memory'';
               memoryDetails = ''*Current Memory Usage: '' @ toFixed1 rt m @ ''%*\<newline>*Threshold: ''
                  @ show_int MEM_THRESHOLD @ ''%*'';
               memoryDetails = (case detailedMem of
                   Some d \<Rightarrow> memoryDetails @ ''\<newline>*Memory Breakdown:*\<newline>'' @ bullet @ '' Total: '' @ mi_total d
                      @ ''\<newline>'' @ bullet @ '' Used: '' @ mi_used d
                      @ ''\<newline>'' @ bullet @ '' Available: '' @ mi_available d
                      @ ''\<newline>'' @ bullet @ '' Cache: '' @ mi_cache d
                 | None \<Rightarrow> memoryDetails);
               memoryDetails = memoryDetails @ ''\<newline>\<newline>*Top Memory Processes:*\<newline>'' @ processDetails
           in [\<lparr>a_title = memTitle,
                a_value = memoryDetails,
                a_fields = Some
                  [\<lparr>f_title = ''Memory Status'',
                    f_value = (case detailedMem of
                        Some d \<Rightarrow> ''Used: '' @ mi_used d @ '' | Available: '' @ mi_available d
                           @ '' | Cache: '' @ mi_cache d
                      | None \<Rightarrow> ''Memory details unavailable''),
                    f_short = True\<rparr>,
                   \<lparr>f_title = ''Potential Issues'',
                    f_value = ''High memory usage may lead to swapping, system slowdown, and potential out-of-memory errors.'',
                    f_short = False\<rparr>]\<rparr>])
        else [])"

text \<open>Lines 325-349.\<close>

definition swapBranch :: "runtime \<Rightarrow> host \<Rightarrow> jsnum option \<Rightarrow> alert list" where
  "swapBranch rt h swap = (case swap of
      None \<Rightarrow> []
    | Some s \<Rightarrow>
        if js_ge s (Num (of_int SWAP_THRESHOLD)) then
          (let detailedSwap = getDetailedSwapInfo h;
               swapDetails = ''*Current Swap Usage: '' @ toFixed1 rt s @ ''%*\<newline>*Threshold: ''
                  @ show_int SWAP_THRESHOLD @ ''%*'';
               swapDetails = (case detailedSwap of
                   Some d \<Rightarrow> swapDetails @ ''\<newline>*Swap Breakdown:*\<newline>'' @ bullet @ '' Total: '' @ sw_total d
                      @ ''\<newline>'' @ bullet @ '' Used: '' @ sw_used d
                      @ ''\<newline>'' @ bullet @ '' Free: '' @ sw_free d
                 | None \<Rightarrow> swapDetails)
           in [\<lparr>a_title = swapTitle,
                a_value = swapDetails,
                a_fields = Some
                  [\<lparr>f_title = ''Swap Status'',
                    f_value = (case detailedSwap of
                        Some d \<Rightarrow> ''Used: '' @ sw_used d @ '' | Free: '' @ sw_free d
                      | None \<Rightarrow> ''Swap details unavailable''),
                    f_short = True\<rparr>,
                   \<lparr>f_title = ''Performance Impact'',
                    f_value = ''High swap usage indicates memory pressure and will significantly slow down system performance.'',
                    f_short = False\<rparr>]\<rparr>])
        else [])"

text \<open>
  Lines 261-349, the threshold evaluator: the three samples are taken, then the three
  branches push their alerts in the order of the source. It returns the list
  \<^verbatim>\<open>alerts\<close> and the world with the new \<^verbatim>\<open>cpuOverThresholdSince\<close> and the lines logged.
\<close>

definition evaluateThresholds :: "runtime \<Rightarrow> host \<Rightarrow> world \<Rightarrow> alert list \<times> world" where
  "evaluateThresholds rt h w =
     (let (cpu, log_cpu) = getCpuUsage rt h;
          (mem, log_mem) = getMemUsage rt h;
          (swap, log_swap) = getSwapUsage rt h;
          now = date_now h;
          (alerts_cpu, since, log_branch) = cpuBranch rt h cpu now (cpuOverThresholdSince w);
          alerts = alerts_cpu @ memBranch rt h mem @ swapBranch rt h swap
      in (alerts,
          say (log_cpu @ log_mem @ log_swap @ log_branch) (w\<lparr>cpuOverThresholdSince := since\<rparr>)))"

text \<open>
  Lines 351-360, the cooldown gate. The call of \<^verbatim>\<open>sendSlackAlert\<close> is not awaited; the
  model runs the send to its end within the cycle, since cycles do not overlap.
\<close>

definition cooldownGate :: "runtime \<Rightarrow> host \<Rightarrow> alert list \<Rightarrow> world \<Rightarrow> string + world" where
  "cooldownGate rt h alerts w =
     (if length alerts > 0 then
        (let (lastAlertTime, log_read) = getLastAlertTime rt h w;
             w1 = say log_read w
         in if js_ge (js_sub (Num (of_int (date_now h))) lastAlertTime) (Num (of_int ALERT_COOLDOWN))
            then sendSlackAlert rt h alerts w1
            else Inr (say [Out ''Alert(s) detected, but cooldown still active.''] w1))
      else Inr (say [Out ''System health OK.''] w))"

definition checkSystemHealth :: "runtime \<Rightarrow> host \<Rightarrow> world \<Rightarrow> string + world" where
  "checkSystemHealth rt h w =
     (let (alerts, w1) = evaluateThresholds rt h w in cooldownGate rt h alerts w1)"

text \<open>The scheduler (lines 375-376): one cycle per host answer, in order; an
  exception would end the run.\<close>

fun runCycles :: "runtime \<Rightarrow> host list \<Rightarrow> world \<Rightarrow> string + world" where
  "runCycles rt [] w = Inr w"
| "runCycles rt (h # hs) w = (case checkSystemHealth rt h w of
      Inl e \<Rightarrow> Inl e
    | Inr w' \<Rightarrow> runCycles rt hs w')"

section \<open>Observations the claims speak of\<close>

text \<open>The descriptors of a list that carry a given title: the CPU descriptor is the
  one titled \<open>cpuTitle\<close>, and likewise for memory and swap.\<close>

definition titled :: "string \<Rightarrow> alert list \<Rightarrow> alert list" where
  "titled t alerts = filter (\<lambda>a. a_title a = t) alerts"

text \<open>The three samples of a cycle, as lines 262-264 read them.\<close>

definition cpuSample :: "runtime \<Rightarrow> host \<Rightarrow> jsnum option" where
  "cpuSample rt h = fst (getCpuUsage rt h)"

definition memSample :: "runtime \<Rightarrow> host \<Rightarrow> jsnum option" where
  "memSample rt h = fst (getMemUsage rt h)"

definition swapSample :: "runtime \<Rightarrow> host \<Rightarrow> jsnum option" where
  "swapSample rt h = fst (getSwapUsage rt h)"

text \<open>A sample that is present and at or above a threshold; a sample that is absent
  or a number below it. A \<open>NaN\<close> sample is neither.\<close>

definition atOrAbove :: "jsnum option \<Rightarrow> int \<Rightarrow> bool" where
  "atOrAbove x T = (case x of Some (Num q) \<Rightarrow> of_int T \<le> q | _ \<Rightarrow> False)"

definition belowOrAbsent :: "jsnum option \<Rightarrow> int \<Rightarrow> bool" where
  "belowOrAbsent x T = (case x of None \<Rightarrow> True | Some (Num q) \<Rightarrow> q < of_int T | Some NaN \<Rightarrow> False)"

text \<open>The alerts of a cycle and the state it leaves.\<close>

definition cycleAlerts :: "runtime \<Rightarrow> host \<Rightarrow> world \<Rightarrow> alert list" where
  "cycleAlerts rt h w = fst (evaluateThresholds rt h w)"

definition sinceAfter :: "runtime \<Rightarrow> host \<Rightarrow> world \<Rightarrow> int option" where
  "sinceAfter rt h w = cpuOverThresholdSince (snd (evaluateThresholds rt h w))"

text \<open>The value \<^verbatim>\<open>cpuOverThresholdSince\<close> has after lines 269-271 of a cycle at \<open>now\<close>.\<close>

definition sinceNow :: "int option \<Rightarrow> int \<Rightarrow> int" where
  "sinceNow since0 now = (case since0 of None \<Rightarrow> now | Some t \<Rightarrow> if t = 0 then now else t)"

text \<open>The test of line 353.\<close>

definition cooldownElapsed :: "runtime \<Rightarrow> host \<Rightarrow> world \<Rightarrow> bool" where
  "cooldownElapsed rt h w =
     js_ge (js_sub (Num (of_int (date_now h))) (fst (getLastAlertTime rt h w)))
       (Num (of_int ALERT_COOLDOWN))"

text \<open>
  A text with one decimal place: an optional minus sign, one digit or more, a point,
  one digit.
\<close>

definition is_digit :: "char \<Rightarrow> bool" where
  "is_digit c = (c \<in> set ''0123456789'')"

definition unsignedOneDecimal :: "string \<Rightarrow> bool" where
  "unsignedOneDecimal t = (case rev t of
      d # p # whole \<Rightarrow> is_digit d \<and> p = CHR ''.'' \<and> whole \<noteq> [] \<and> list_all is_digit whole
    | _ \<Rightarrow> False)"

definition oneDecimal :: "string \<Rightarrow> bool" where
  "oneDecimal s = unsignedOneDecimal (case s of c # cs \<Rightarrow> if c = CHR ''-'' then cs else s | [] \<Rightarrow> [])"

text \<open>The text a body displays after a label, up to the percent sign.\<close>

fun afterFirst :: "string \<Rightarrow> string \<Rightarrow> string option" where
  "afterFirst marker [] = (if marker = [] then Some [] else None)"
| "afterFirst marker (c # cs) =
     (if prefix marker (c # cs) then Some (drop (length marker) (c # cs)) else afterFirst marker cs)"

definition displayedAfter :: "string \<Rightarrow> string \<Rightarrow> string option" where
  "displayedAfter label body = map_option (takeWhile (\<lambda>c. c \<noteq> CHR ''%'')) (afterFirst label body)"

section \<open>The spec's words for the formatter\<close>

text \<open>
  The two lines of an entry as the specification describes them: the numbered, bolded
  command, cut to its first 47 characters and an ellipsis when it is longer than 50,
  and the detail line with PID, user, the percentage under its label, and RSS.
\<close>

definition spec_numberedLine :: "nat \<Rightarrow> string \<Rightarrow> string" where
  "spec_numberedLine n command =
     show_nat n @ ''. *'' @ (if 50 < length command then take 47 command @ ''...'' else command) @ ''*''"

definition spec_detailLine :: "string \<Rightarrow> string \<Rightarrow> proc \<Rightarrow> string" where
  "spec_detailLine label percentage pr =
     ''   PID: '' @ p_pid pr @ '' | User: '' @ p_user pr @ '' | '' @ label @ '': '' @ percentage
       @ ''% | RSS: '' @ p_rss pr"

section \<open>Example values\<close>

text \<open>
  The values of the repository's tests. The runtime is the table of JavaScript's
  answers on the texts and numbers the examples use (\<^verbatim>\<open>parseFloat("95.0")\<close> is 95,
  \<^verbatim>\<open>parseFloat("")\<close> is \<open>NaN\<close>, 360000 / 60000 is 6, 25.5 is written "25.5"); elsewhere
  the table holds \<open>NaN\<close>. The process has a command of 80 characters, and the host
  answers every call.
\<close>

definition exampleRuntime :: runtime where
  "exampleRuntime = \<lparr>
     parseFloat = (\<lambda>s. if s = ''95.0'' then Num 95 else if s = ''75.0'' then Num 75
                       else if s = ''25.0'' then Num 25 else NaN),
     parseInt = (\<lambda>s. if s = ''1700000000000'' then Num 1700000000000 else NaN),
     numToString = (\<lambda>x. if x = Num (51 / 2) then ''25.5'' else if x = Num (41 / 4) then ''10.25''
                        else ''NaN''),
     js_divide = (\<lambda>a b. if a = Num 360000 \<and> b = Num 60000 then Num 6
                     else if a = Num 270000 \<and> b = Num 60000 then Num (9 / 2)
                     else if a = Num 0 \<and> b = Num 60000 then Num 0 else NaN)\<rparr>"

definition exampleProc :: proc where
  "exampleProc = \<lparr>p_user = ''user1'', p_pid = ''1234'', p_cpu = Num (51 / 2), p_mem = Num (41 / 4),
     p_vsz = ''1234567'', p_rss = ''89012'', p_tty = ''pts/0'', p_stat = ''S+'', p_start = ''10:30'',
     p_time = ''0:05'',
     p_command = ''/usr/bin/very/long/path/to/a/very/long/command/name/that/exceeds/fifty/character''\<rparr>"

definition exampleHost :: "string \<Rightarrow> string \<Rightarrow> string \<Rightarrow> int \<Rightarrow> host" where
  "exampleHost cpu mem swap now = \<lparr>
     exec_cpu = Inr cpu, exec_mem = Inr mem, exec_swap = Inr swap,
     date_now = now,
     getTopCpuProcesses = (\<lambda>limit. take limit [exampleProc]),
     getDetailedMemoryInfo = Some \<lparr>mi_total = ''15Gi'', mi_used = ''8.2Gi'', mi_free = ''2.1Gi'',
        mi_shared = ''0.0Ki'', mi_cache = ''4.7Gi'', mi_available = ''6.8Gi''\<rparr>,
     getTopMemoryProcesses = (\<lambda>limit. take limit [exampleProc]),
     getDetailedSwapInfo = None,
     readFileSync_error = None,
     hostname = ''web-1'',
     getUptime = Some ''up 2 days, 3 hours'',
     getSystemLoad = None,
     getDiskUsage = None,
     attach_now = (\<lambda>i. now),
     axios_post = (\<lambda>m. Inr ()),
     write_now = now,
     writeFileSync_answer = Written\<rparr>"

definition exampleWorld :: "int option \<Rightarrow> string option \<Rightarrow> world" where
  "exampleWorld since file =
     \<lparr>cpuOverThresholdSince = since, last_alert_file = file, console = [], posted = []\<rparr>"

text \<open>The alert of the repository's test of a failing transport.\<close>

definition exampleAlerts :: "alert list" where
  "exampleAlerts = [\<lparr>a_title = ''Test Alert'', a_value = ''Test value'', a_fields = None\<rparr>]"

section \<open>Evaluation rules\<close>

lemma show_nat_small: "n < 10 \<Longrightarrow> show_nat n = [digit_char n]"
  by (simp add: show_nat.simps)

lemma show_nat_big: "10 \<le> n \<Longrightarrow> show_nat n = show_nat (n div 10) @ [digit_char (n mod 10)]"
  by (subst show_nat.simps) simp

lemma floor_rat_numeral: "\<lfloor>(numeral a :: rat) / numeral b\<rfloor> = numeral a div numeral b"
  using floor_divide_of_int_eq [of "numeral a" "numeral b", where ?'a = rat] by simp

lemmas eval_text = show_nat_small show_nat_big digit_char_def Let_def floor_rat_numeral
  show_int_def toFixed1_def minutes_def

lemmas eval_format = formatProcessList_def formatProcess_def shortCommand_def enumerate_eq_zip

lemmas eval_example = exampleRuntime_def exampleProc_def exampleHost_def exampleWorld_def

section \<open>The process list formatter: C7\<close>

lemma formatProcess_cpu:
  "formatProcess rt ''cpu'' index pr =
     spec_numberedLine (index + 1) (p_command pr) @ ''\<newline>''
       @ spec_detailLine ''CPU'' (numToString rt (p_cpu pr)) pr"
  by (simp add: formatProcess_def shortCommand_def spec_numberedLine_def spec_detailLine_def)

lemma formatProcess_memory:
  "formatProcess rt ''memory'' index pr =
     spec_numberedLine (index + 1) (p_command pr) @ ''\<newline>''
       @ spec_detailLine ''Memory'' (numToString rt (p_mem pr)) pr"
  by (simp add: formatProcess_def shortCommand_def spec_numberedLine_def spec_detailLine_def)

lemma formatProcessList_nonempty:
  "ps \<noteq> [] \<Longrightarrow> formatProcessList rt (Some ps) type =
     join ''\<newline>'' (map (\<lambda>(index, pr). formatProcess rt type index pr) (enumerate 0 ps))"
  by (simp add: formatProcessList_def)

text \<open>
  C7. For \<^verbatim>\<open>null\<close> and for the empty list the formatter returns "No processes found".
  For a non-empty list it joins, with newlines, one entry per process in the list's
  order: the numbered bolded command line, then the detail line with PID, user, the
  CPU percentage in mode "cpu" and the memory percentage in mode "memory", and RSS.
  A command of more than 50 characters is displayed as its first 47 characters and
  "...", 50 characters in all; a shorter one is displayed whole.
\<close>

theorem formatProcessList_contract:
  "formatProcessList rt None type = ''No processes found''
   \<and> formatProcessList rt (Some []) type = ''No processes found''
   \<and> (ps \<noteq> [] \<longrightarrow>
        formatProcessList rt (Some ps) ''cpu'' =
          join ''\<newline>'' (map (\<lambda>(index, pr). spec_numberedLine (index + 1) (p_command pr) @ ''\<newline>''
                 @ spec_detailLine ''CPU'' (numToString rt (p_cpu pr)) pr) (enumerate 0 ps))
        \<and> formatProcessList rt (Some ps) ''memory'' =
          join ''\<newline>'' (map (\<lambda>(index, pr). spec_numberedLine (index + 1) (p_command pr) @ ''\<newline>''
                 @ spec_detailLine ''Memory'' (numToString rt (p_mem pr)) pr) (enumerate 0 ps)))
   \<and> (50 < length command \<longrightarrow>
        spec_numberedLine n command = show_nat n @ ''. *'' @ take 47 command @ ''...*''
        \<and> shortCommand command = take 47 command @ ''...''
        \<and> length (shortCommand command) = 50)
   \<and> (length command \<le> 50 \<longrightarrow> shortCommand command = command)"
proof -
  have empty: "formatProcessList rt None type = ''No processes found''"
    "formatProcessList rt (Some []) type = ''No processes found''"
    by (simp_all add: formatProcessList_def)
  have entries: "formatProcessList rt (Some ps) ''cpu'' =
          join ''\<newline>'' (map (\<lambda>(index, pr). spec_numberedLine (index + 1) (p_command pr) @ ''\<newline>''
                 @ spec_detailLine ''CPU'' (numToString rt (p_cpu pr)) pr) (enumerate 0 ps))
        \<and> formatProcessList rt (Some ps) ''memory'' =
          join ''\<newline>'' (map (\<lambda>(index, pr). spec_numberedLine (index + 1) (p_command pr) @ ''\<newline>''
                 @ spec_detailLine ''Memory'' (numToString rt (p_mem pr)) pr) (enumerate 0 ps))"
    if "ps \<noteq> []"
    using that by (simp add: formatProcessList_nonempty formatProcess_cpu formatProcess_memory)
  have long: "spec_numberedLine n command = show_nat n @ ''. *'' @ take 47 command @ ''...*''
        \<and> shortCommand command = take 47 command @ ''...''
        \<and> length (shortCommand command) = 50"
    if "50 < length command"
    using that by (simp add: spec_numberedLine_def shortCommand_def)
  have short: "shortCommand command = command" if "length command \<le> 50"
    using that by (simp add: shortCommand_def)
  from empty entries long short show ?thesis by blast
qed

theorem formatProcessList_contract_witness:
  "[exampleProc] \<noteq> []
   \<and> length (p_command exampleProc) = 80
   \<and> formatProcessList exampleRuntime (Some [exampleProc]) ''cpu'' =
       ''1. */usr/bin/very/long/path/to/a/very/long/command/...*\<newline>   PID: 1234 | User: user1 | CPU: 25.5% | RSS: 89012''
   \<and> formatProcessList exampleRuntime (Some [exampleProc]) ''memory'' =
       ''1. */usr/bin/very/long/path/to/a/very/long/command/...*\<newline>   PID: 1234 | User: user1 | Memory: 10.25% | RSS: 89012''
   \<and> shortCommand (p_command exampleProc) = ''/usr/bin/very/long/path/to/a/very/long/command/...''
   \<and> shortCommand ''/usr/bin/node app.js'' = ''/usr/bin/node app.js''"
  using formatProcessList_contract [of exampleRuntime "''cpu''" "[exampleProc]" "p_command exampleProc" 1]
    formatProcessList_contract [of exampleRuntime "''cpu''" "[exampleProc]" "''/usr/bin/node app.js''" 1]
  by (simp add: eval_example eval_text enumerate_eq_zip spec_numberedLine_def spec_detailLine_def)

section \<open>Facts about the evaluator\<close>

lemma js_ge_atOrAbove: "js_ge c (Num (of_int T)) = atOrAbove (Some c) T"
  by (cases c) (simp_all add: atOrAbove_def)

lemma titles_distinct:
  "cpuTitle \<noteq> memTitle" "cpuTitle \<noteq> swapTitle" "memTitle \<noteq> swapTitle"
  "memTitle \<noteq> cpuTitle" "swapTitle \<noteq> cpuTitle" "swapTitle \<noteq> memTitle"
  by (simp_all add: cpuTitle_def memTitle_def swapTitle_def)

lemma titled_append: "titled t (xs @ ys) = titled t xs @ titled t ys"
  by (simp add: titled_def)

lemma cpuAlert_title: "a_title (cpuAlert rt h c now since) = cpuTitle"
  by (simp add: cpuAlert_def)

lemma memBranch_cases:
  "memBranch rt h mem = [] \<or> (\<exists>a. memBranch rt h mem = [a] \<and> a_title a = memTitle)"
  by (simp add: memBranch_def Let_def split: option.split)

lemma swapBranch_cases:
  "swapBranch rt h swap = [] \<or> (\<exists>a. swapBranch rt h swap = [a] \<and> a_title a = swapTitle)"
  by (simp add: swapBranch_def Let_def split: option.split)

lemma cpuBranch_alerts_cases:
  "fst (cpuBranch rt h cpu now since0) = []
   \<or> (\<exists>a. fst (cpuBranch rt h cpu now since0) = [a] \<and> a_title a = cpuTitle)"
  by (simp add: cpuBranch_def Let_def cpuAlert_title split: option.split)

lemma titled_memBranch:
  "titled memTitle (memBranch rt h mem) = memBranch rt h mem"
  "titled cpuTitle (memBranch rt h mem) = []"
  "titled swapTitle (memBranch rt h mem) = []"
  using memBranch_cases [of rt h mem] titles_distinct by (auto simp: titled_def)

lemma titled_swapBranch:
  "titled swapTitle (swapBranch rt h swap) = swapBranch rt h swap"
  "titled cpuTitle (swapBranch rt h swap) = []"
  "titled memTitle (swapBranch rt h swap) = []"
  using swapBranch_cases [of rt h swap] titles_distinct by (auto simp: titled_def)

lemma titled_cpuBranch:
  "titled cpuTitle (fst (cpuBranch rt h cpu now since0)) = fst (cpuBranch rt h cpu now since0)"
  "titled memTitle (fst (cpuBranch rt h cpu now since0)) = []"
  "titled swapTitle (fst (cpuBranch rt h cpu now since0)) = []"
  using cpuBranch_alerts_cases [of rt h cpu now since0] titles_distinct by (auto simp: titled_def)

lemma cycleAlerts_eq:
  "cycleAlerts rt h w =
     fst (cpuBranch rt h (cpuSample rt h) (date_now h) (cpuOverThresholdSince w))
       @ memBranch rt h (memSample rt h) @ swapBranch rt h (swapSample rt h)"
  by (simp add: cycleAlerts_def evaluateThresholds_def cpuSample_def memSample_def swapSample_def
      split: prod.split)

lemma sinceAfter_eq:
  "sinceAfter rt h w = fst (snd (cpuBranch rt h (cpuSample rt h) (date_now h) (cpuOverThresholdSince w)))"
  by (simp add: sinceAfter_def evaluateThresholds_def cpuSample_def say_def split: prod.split)

lemma cycle_cpu_alerts:
  "titled cpuTitle (cycleAlerts rt h w) =
     fst (cpuBranch rt h (cpuSample rt h) (date_now h) (cpuOverThresholdSince w))"
  by (simp add: cycleAlerts_eq titled_append titled_cpuBranch titled_memBranch titled_swapBranch)

lemma cycle_mem_alerts: "titled memTitle (cycleAlerts rt h w) = memBranch rt h (memSample rt h)"
  by (simp add: cycleAlerts_eq titled_append titled_cpuBranch titled_memBranch titled_swapBranch)

lemma cycle_swap_alerts: "titled swapTitle (cycleAlerts rt h w) = swapBranch rt h (swapSample rt h)"
  by (simp add: cycleAlerts_eq titled_append titled_cpuBranch titled_memBranch titled_swapBranch)

lemma cpuBranch_over:
  "atOrAbove (Some c) CPU_THRESHOLD \<Longrightarrow>
   cpuBranch rt h (Some c) now since0 =
     (if CPU_OVER_THRESHOLD_DURATION \<le> now - sinceNow since0 now
      then ([cpuAlert rt h c now (sinceNow since0 now)], Some (sinceNow since0 now), [])
      else ([], Some (sinceNow since0 now),
            [Out (''CPU over threshold, but not for 5 minutes yet (''
                  @ toFixed1 rt (minutes rt (now - sinceNow since0 now)) @ '' min)'')]))"
  by (simp add: cpuBranch_def js_ge_atOrAbove sinceNow_def Let_def)

lemma cpuBranch_not_over:
  "\<not> atOrAbove cpu CPU_THRESHOLD \<Longrightarrow> cpuBranch rt h cpu now since0 = ([], None, [])"
  by (cases cpu) (simp_all add: cpuBranch_def js_ge_atOrAbove)

lemma belowOrAbsent_not_atOrAbove: "belowOrAbsent x T \<Longrightarrow> \<not> atOrAbove x T"
  by (auto simp: belowOrAbsent_def atOrAbove_def split: option.splits jsnum.splits)

section \<open>The text of a number with one decimal place\<close>

lemma is_digit_digit_char: "d < 10 \<Longrightarrow> is_digit (digit_char d)"
proof -
  assume "d < 10"
  then have "d \<in> {0, 1, 2, 3, 4, 5, 6, 7, 8, 9}" by auto
  then show ?thesis
    by (auto simp: is_digit_def digit_char_def)
qed

lemma is_digit_not_minus: "is_digit c \<Longrightarrow> c \<noteq> CHR ''-''"
  by (auto simp: is_digit_def)

lemma show_nat_digits: "show_nat n \<noteq> [] \<and> list_all is_digit (show_nat n)"
proof (induction n rule: show_nat.induct)
  case (1 n)
  show ?case
  proof (cases "n < 10")
    case True
    then show ?thesis by (simp add: show_nat_small is_digit_digit_char)
  next
    case False
    then have "show_nat n = show_nat (n div 10) @ [digit_char (n mod 10)]"
      by (simp add: show_nat_big)
    moreover have "list_all is_digit (show_nat (n div 10))" using 1 False by simp
    ultimately show ?thesis by (simp add: is_digit_digit_char)
  qed
qed

lemma unsignedOneDecimal_parts:
  "whole \<noteq> [] \<Longrightarrow> list_all is_digit whole \<Longrightarrow> is_digit d \<Longrightarrow>
   unsignedOneDecimal (whole @ ''.'' @ [d])"
  by (simp add: unsignedOneDecimal_def)

lemma oneDecimal_parts:
  assumes "whole \<noteq> []" "list_all is_digit whole" "is_digit d"
  shows "oneDecimal (whole @ ''.'' @ [d])" and "oneDecimal (''-'' @ whole @ ''.'' @ [d])"
proof -
  obtain c cs where w: "whole = c # cs" using assms(1) by (cases whole) auto
  then have "c \<noteq> CHR ''-''" using assms(2) by (simp add: is_digit_not_minus)
  then show "oneDecimal (whole @ ''.'' @ [d])"
    using unsignedOneDecimal_parts [OF assms] by (simp add: oneDecimal_def w)
  show "oneDecimal (''-'' @ whole @ ''.'' @ [d])"
    using unsignedOneDecimal_parts [OF assms] by (simp add: oneDecimal_def)
qed

lemma toFixed1_oneDecimal:
  assumes "\<bar>q\<bar> < 10 ^ 21"
  shows "oneDecimal (toFixed1 rt (Num q))"
proof -
  define n where "n = nat \<lfloor>\<bar>q\<bar> * 10 + 1 / 2\<rfloor>"
  have last: "show_nat (n mod 10) = [digit_char (n mod 10)]" by (simp add: show_nat_small)
  have parts: "show_nat (n div 10) \<noteq> []" "list_all is_digit (show_nat (n div 10))"
    "is_digit (digit_char (n mod 10))"
    by (simp_all add: show_nat_digits is_digit_digit_char)
  have "toFixed1 rt (Num q) =
      (if q < 0 then ''-'' else '''') @ show_nat (n div 10) @ ''.'' @ [digit_char (n mod 10)]"
    using assms last by (simp add: toFixed1_def Let_def flip: n_def)
  then show ?thesis using oneDecimal_parts [OF parts] by simp
qed


lemma minutes_oneDecimal:
  "minutes rt ms = Num q \<Longrightarrow> \<bar>q\<bar> < 10 ^ 21 \<Longrightarrow> oneDecimal (toFixed1 rt (minutes rt ms))"
  by (simp add: toFixed1_oneDecimal)

section \<open>Facts about the gate and the transport\<close>

lemma say_fields [simp]:
  "cpuOverThresholdSince (say ls w) = cpuOverThresholdSince w"
  "last_alert_file (say ls w) = last_alert_file w"
  "posted (say ls w) = posted w"
  "console (say ls w) = console w @ ls"
  by (simp_all add: say_def)

lemma setLastAlertTime_eq:
  "setLastAlertTime h w = Inr (case writeFileSync_answer h of
      Written \<Rightarrow> w\<lparr>last_alert_file := Some (show_int (write_now h))\<rparr>
    | ThrowsAtOpen msg \<Rightarrow> say [Err (''Error writing last alert time: '' @ msg)] w
    | ThrowsAfterOpen msg n \<Rightarrow>
        say [Err (''Error writing last alert time: '' @ msg)]
          (w\<lparr>last_alert_file := Some (take n (show_int (write_now h)))\<rparr>))"
  by (simp add: setLastAlertTime_def writeFileSync_def split: write_answer.split)

lemma setLastAlertTime_returns:
  "\<exists>w'. setLastAlertTime h w = Inr w' \<and> cpuOverThresholdSince w' = cpuOverThresholdSince w
        \<and> posted w' = posted w"
  by (simp add: setLastAlertTime_eq split: write_answer.split)

lemma sendSlackAlert_returns:
  "\<exists>w'. sendSlackAlert rt h alerts w = Inr w' \<and> cpuOverThresholdSince w' = cpuOverThresholdSince w
        \<and> posted w' = posted w @ [composeMessage rt h alerts]"
  by (simp add: sendSlackAlert_def Let_def setLastAlertTime_eq split: sum.split write_answer.split)

lemma cooldownGate_returns:
  "\<exists>w'. cooldownGate rt h alerts w = Inr w' \<and> cpuOverThresholdSince w' = cpuOverThresholdSince w"
proof -
  obtain w' where "sendSlackAlert rt h alerts (say (snd (getLastAlertTime rt h w)) w) = Inr w'"
    "cpuOverThresholdSince w' = cpuOverThresholdSince w"
    using sendSlackAlert_returns [of rt h alerts "say (snd (getLastAlertTime rt h w)) w"] by auto
  then show ?thesis
    by (simp add: cooldownGate_def Let_def case_prod_beta)
qed

lemma checkSystemHealth_returns:
  "\<exists>w'. checkSystemHealth rt h w = Inr w' \<and> cpuOverThresholdSince w' = sinceAfter rt h w"
  using cooldownGate_returns [of rt h "fst (evaluateThresholds rt h w)" "snd (evaluateThresholds rt h w)"]
  by (simp add: checkSystemHealth_def sinceAfter_def case_prod_beta)

lemma runCycles_returns: "\<exists>w'. runCycles rt hs w = Inr w'"
proof (induction hs arbitrary: w)
  case Nil
  show ?case by simp
next
  case (Cons h hs)
  obtain w1 where "checkSystemHealth rt h w = Inr w1" using checkSystemHealth_returns by blast
  then show ?case using Cons.IH [of w1] by simp
qed

section \<open>Runs of cycles\<close>

lemma cycle_not_over:
  assumes "\<not> atOrAbove (cpuSample rt h) CPU_THRESHOLD"
  shows "titled cpuTitle (cycleAlerts rt h w) = []" and "sinceAfter rt h w = None"
  using cpuBranch_not_over [OF assms] by (simp_all add: cycle_cpu_alerts sinceAfter_eq)

lemma cycle_over:
  assumes "atOrAbove (cpuSample rt h) CPU_THRESHOLD"
  shows "sinceAfter rt h w = Some (sinceNow (cpuOverThresholdSince w) (date_now h))"
    and "titled cpuTitle (cycleAlerts rt h w) \<noteq> [] \<longleftrightarrow>
         CPU_OVER_THRESHOLD_DURATION \<le> date_now h - sinceNow (cpuOverThresholdSince w) (date_now h)"
proof -
  obtain c where c: "cpuSample rt h = Some c"
    using assms by (cases "cpuSample rt h") (simp_all add: atOrAbove_def)
  have b: "cpuBranch rt h (cpuSample rt h) (date_now h) (cpuOverThresholdSince w) =
     (if CPU_OVER_THRESHOLD_DURATION \<le> date_now h - sinceNow (cpuOverThresholdSince w) (date_now h)
      then ([cpuAlert rt h c (date_now h) (sinceNow (cpuOverThresholdSince w) (date_now h))],
            Some (sinceNow (cpuOverThresholdSince w) (date_now h)), [])
      else ([], Some (sinceNow (cpuOverThresholdSince w) (date_now h)),
            [Out (''CPU over threshold, but not for 5 minutes yet (''
                  @ toFixed1 rt (minutes rt (date_now h - sinceNow (cpuOverThresholdSince w) (date_now h)))
                  @ '' min)'')]))"
    using assms unfolding c by (rule cpuBranch_over)
  show "sinceAfter rt h w = Some (sinceNow (cpuOverThresholdSince w) (date_now h))"
    using b by (simp add: sinceAfter_eq)
  show "titled cpuTitle (cycleAlerts rt h w) \<noteq> [] \<longleftrightarrow>
         CPU_OVER_THRESHOLD_DURATION \<le> date_now h - sinceNow (cpuOverThresholdSince w) (date_now h)"
    using b by (simp add: cycle_cpu_alerts)
qed

text \<open>While the samples stay at or above the threshold, a set, non-zero state is kept.\<close>

lemma over_run_keeps_since:
  assumes "list_all (\<lambda>h. atOrAbove (cpuSample rt h) CPU_THRESHOLD) hs"
    and "cpuOverThresholdSince w = Some t" and "t \<noteq> 0"
  shows "\<exists>w'. runCycles rt hs w = Inr w' \<and> cpuOverThresholdSince w' = Some t"
  using assms
proof (induction hs arbitrary: w)
  case Nil
  then show ?case by simp
next
  case (Cons h hs)
  from Cons.prems have over: "atOrAbove (cpuSample rt h) CPU_THRESHOLD" by simp
  obtain w1 where w1: "checkSystemHealth rt h w = Inr w1" "cpuOverThresholdSince w1 = sinceAfter rt h w"
    using checkSystemHealth_returns by blast
  have "cpuOverThresholdSince w1 = Some t"
    using cycle_over(1) [OF over, of w] Cons.prems(2,3) w1(2) by (simp add: sinceNow_def)
  then obtain w' where "runCycles rt hs w1 = Inr w'" "cpuOverThresholdSince w' = Some t"
    using Cons.IH [of w1] Cons.prems by auto
  then show ?case using w1 by simp
qed

lemma sustained_run:
  assumes unset: "cpuOverThresholdSince w = None"
    and over1: "atOrAbove (cpuSample rt h1) CPU_THRESHOLD"
    and overs: "list_all (\<lambda>h. atOrAbove (cpuSample rt h) CPU_THRESHOLD) hs"
    and over2: "atOrAbove (cpuSample rt h2) CPU_THRESHOLD"
    and nz: "date_now h1 \<noteq> 0"
  shows "\<exists>w'. runCycles rt (h1 # hs) w = Inr w'
      \<and> cpuOverThresholdSince w' = Some (date_now h1)
      \<and> (titled cpuTitle (cycleAlerts rt h2 w') \<noteq> [] \<longleftrightarrow>
           CPU_OVER_THRESHOLD_DURATION \<le> date_now h2 - date_now h1)"
proof -
  obtain w1 where w1: "checkSystemHealth rt h1 w = Inr w1"
    "cpuOverThresholdSince w1 = Some (date_now h1)"
    using checkSystemHealth_returns [of rt h1 w] cycle_over(1) [OF over1, of w] unset
    by (auto simp: sinceNow_def)
  obtain w' where w': "runCycles rt hs w1 = Inr w'" "cpuOverThresholdSince w' = Some (date_now h1)"
    using over_run_keeps_since [OF overs w1(2) nz] by blast
  have "titled cpuTitle (cycleAlerts rt h2 w') \<noteq> [] \<longleftrightarrow>
           CPU_OVER_THRESHOLD_DURATION \<le> date_now h2 - date_now h1"
    using cycle_over(2) [OF over2, of w'] w'(2) nz by (simp add: sinceNow_def)
  then show ?thesis using w1 w' by simp
qed

lemma restart_after_reset:
  assumes reset: "\<not> atOrAbove (cpuSample rt h0) CPU_THRESHOLD"
    and over1: "atOrAbove (cpuSample rt h1) CPU_THRESHOLD"
    and overs: "list_all (\<lambda>h. atOrAbove (cpuSample rt h) CPU_THRESHOLD) hs"
    and over2: "atOrAbove (cpuSample rt h2) CPU_THRESHOLD"
    and nz: "date_now h1 \<noteq> 0"
  shows "\<exists>w'. runCycles rt (h0 # h1 # hs) w = Inr w'
      \<and> cpuOverThresholdSince w' = Some (date_now h1)
      \<and> (titled cpuTitle (cycleAlerts rt h2 w') \<noteq> [] \<longleftrightarrow>
           CPU_OVER_THRESHOLD_DURATION \<le> date_now h2 - date_now h1)"
proof -
  obtain w0 where w0: "checkSystemHealth rt h0 w = Inr w0" "cpuOverThresholdSince w0 = None"
    using checkSystemHealth_returns [of rt h0 w] cycle_not_over(2) [OF reset, of w] by auto
  show ?thesis
    using sustained_run [OF w0(2) over1 overs over2 nz] w0(1) by simp
qed

section \<open>The sustained CPU alert: C1\<close>

text \<open>
  C1. In a cycle whose CPU sample is present and at or above the threshold, the state
  after the cycle is set: to the time of the cycle when it was unset before (the first
  cycle of an excursion), to its former value otherwise. A CPU descriptor is produced
  if and only if the time since that value is at least the sustained duration; on the
  first cycle none is produced. The descriptor produced is the one whose body holds
  the CPU value as \<^verbatim>\<open>toFixed(1)\<close> writes it, the threshold, the elapsed minutes as
  \<^verbatim>\<open>toFixed(1)\<close> writes them and the formatted list of the top 8 CPU processes; the
  two numbers have one decimal place (for a number below \<open>10^21\<close>, where
  \<^verbatim>\<open>toFixed\<close> writes fixed notation). The whole cycle returns with that state. When
  the samples then stay at or above the threshold, the state stays, and a later cycle
  produces a CPU descriptor if and only if the sustained duration has passed since
  the first cycle: at the first such cycle, not before.
\<close>

theorem cpu_sustained_alert:
  fixes rt :: runtime and h :: host and w :: world and c :: jsnum
  assumes sample: "cpuSample rt h = Some c"
    and over: "atOrAbove (Some c) CPU_THRESHOLD"
  defines "now \<equiv> date_now h"
    and "since \<equiv> sinceNow (cpuOverThresholdSince w) (date_now h)"
  shows "sinceAfter rt h w = Some since
    \<and> (titled cpuTitle (cycleAlerts rt h w) \<noteq> [] \<longleftrightarrow> CPU_OVER_THRESHOLD_DURATION \<le> now - since)
    \<and> (cpuOverThresholdSince w = None \<longrightarrow> since = now \<and> titled cpuTitle (cycleAlerts rt h w) = [])
    \<and> (\<forall>t. cpuOverThresholdSince w = Some t \<and> t \<noteq> 0 \<longrightarrow> since = t)
    \<and> (CPU_OVER_THRESHOLD_DURATION \<le> now - since \<longrightarrow>
          titled cpuTitle (cycleAlerts rt h w) = [cpuAlert rt h c now since])
    \<and> a_value (cpuAlert rt h c now since) =
          ''*Current CPU Usage: '' @ toFixed1 rt c @ ''%*\<newline>*Threshold: '' @ show_int CPU_THRESHOLD
            @ ''%*\<newline>*Duration: '' @ toFixed1 rt (minutes rt (now - since))
            @ '' minutes*\<newline>\<newline>*Top CPU Processes:*\<newline>''
            @ formatProcessList rt (Some (getTopCpuProcesses h 8)) ''cpu''
    \<and> (\<forall>q. c = Num q \<and> q < 10 ^ 21 \<longrightarrow> oneDecimal (toFixed1 rt c))
    \<and> (\<forall>q. minutes rt (now - since) = Num q \<and> \<bar>q\<bar> < 10 ^ 21 \<longrightarrow>
          oneDecimal (toFixed1 rt (minutes rt (now - since))))
    \<and> (\<exists>w'. checkSystemHealth rt h w = Inr w' \<and> cpuOverThresholdSince w' = Some since)
    \<and> (\<forall>hs h2. cpuOverThresholdSince w = None \<and> now \<noteq> 0
          \<and> list_all (\<lambda>h. atOrAbove (cpuSample rt h) CPU_THRESHOLD) hs
          \<and> atOrAbove (cpuSample rt h2) CPU_THRESHOLD \<longrightarrow>
          (\<exists>w'. runCycles rt (h # hs) w = Inr w'
             \<and> cpuOverThresholdSince w' = Some now
             \<and> (titled cpuTitle (cycleAlerts rt h2 w') \<noteq> [] \<longleftrightarrow>
                  CPU_OVER_THRESHOLD_DURATION \<le> date_now h2 - now)))"
proof -
  have branch: "cpuBranch rt h (cpuSample rt h) now (cpuOverThresholdSince w) =
     (if CPU_OVER_THRESHOLD_DURATION \<le> now - since
      then ([cpuAlert rt h c now since], Some since, [])
      else ([], Some since,
            [Out (''CPU over threshold, but not for 5 minutes yet (''
                  @ toFixed1 rt (minutes rt (now - since)) @ '' min)'')]))"
    unfolding sample since_def now_def by (rule cpuBranch_over [OF over])
  have c1: "sinceAfter rt h w = Some since"
    using branch by (simp add: sinceAfter_eq now_def)
  have alerts: "titled cpuTitle (cycleAlerts rt h w) =
      (if CPU_OVER_THRESHOLD_DURATION \<le> now - since then [cpuAlert rt h c now since] else [])"
    using branch by (simp add: cycle_cpu_alerts now_def)
  have c2: "titled cpuTitle (cycleAlerts rt h w) \<noteq> [] \<longleftrightarrow> CPU_OVER_THRESHOLD_DURATION \<le> now - since"
    by (simp add: alerts)
  have c3: "cpuOverThresholdSince w = None \<longrightarrow> since = now \<and> titled cpuTitle (cycleAlerts rt h w) = []"
    by (simp add: alerts since_def now_def sinceNow_def CPU_OVER_THRESHOLD_DURATION_def)
  have c4: "\<forall>t. cpuOverThresholdSince w = Some t \<and> t \<noteq> 0 \<longrightarrow> since = t"
    by (simp add: since_def sinceNow_def)
  have c5: "CPU_OVER_THRESHOLD_DURATION \<le> now - since \<longrightarrow>
          titled cpuTitle (cycleAlerts rt h w) = [cpuAlert rt h c now since]"
    by (simp add: alerts)
  have c6: "a_value (cpuAlert rt h c now since) =
          ''*Current CPU Usage: '' @ toFixed1 rt c @ ''%*\<newline>*Threshold: '' @ show_int CPU_THRESHOLD
            @ ''%*\<newline>*Duration: '' @ toFixed1 rt (minutes rt (now - since))
            @ '' minutes*\<newline>\<newline>*Top CPU Processes:*\<newline>''
            @ formatProcessList rt (Some (getTopCpuProcesses h 8)) ''cpu''"
    by (simp add: cpuAlert_def)
  have c7: "\<forall>q. c = Num q \<and> q < 10 ^ 21 \<longrightarrow> oneDecimal (toFixed1 rt c)"
  proof (intro allI impI)
    fix q assume q: "c = Num q \<and> q < 10 ^ 21"
    then have "0 \<le> q" using over by (simp add: atOrAbove_def CPU_THRESHOLD_def)
    then show "oneDecimal (toFixed1 rt c)" using q by (simp add: toFixed1_oneDecimal)
  qed
  have c8: "\<forall>q. minutes rt (now - since) = Num q \<and> \<bar>q\<bar> < 10 ^ 21 \<longrightarrow>
          oneDecimal (toFixed1 rt (minutes rt (now - since)))"
    using minutes_oneDecimal [of rt "now - since"] by blast
  have c9: "\<exists>w'. checkSystemHealth rt h w = Inr w' \<and> cpuOverThresholdSince w' = Some since"
    using checkSystemHealth_returns [of rt h w] c1 by simp
  have over_h: "atOrAbove (cpuSample rt h) CPU_THRESHOLD"
    using sample over by simp
  have c10: "\<forall>hs h2. cpuOverThresholdSince w = None \<and> now \<noteq> 0
          \<and> list_all (\<lambda>h. atOrAbove (cpuSample rt h) CPU_THRESHOLD) hs
          \<and> atOrAbove (cpuSample rt h2) CPU_THRESHOLD \<longrightarrow>
          (\<exists>w'. runCycles rt (h # hs) w = Inr w'
             \<and> cpuOverThresholdSince w' = Some now
             \<and> (titled cpuTitle (cycleAlerts rt h2 w') \<noteq> [] \<longleftrightarrow>
                  CPU_OVER_THRESHOLD_DURATION \<le> date_now h2 - now))"
    unfolding now_def using sustained_run [OF _ over_h, of w] by blast
  show ?thesis
    by (intro conjI)
      (rule c1, rule c2, rule c3, rule c4, rule c5, rule c6, rule c7, rule c8, rule c9, rule c10)
qed

theorem cpu_sustained_alert_witness:
  "cpuSample exampleRuntime (exampleHost ''95.0'' ''75.0'' ''25.0'' 1700000360000) = Some (Num 95)
   \<and> atOrAbove (Some (Num 95)) CPU_THRESHOLD
   \<and> sinceAfter exampleRuntime (exampleHost ''95.0'' ''75.0'' ''25.0'' 1700000360000)
        (exampleWorld (Some 1700000000000) None) = Some 1700000000000
   \<and> map a_value (titled cpuTitle (cycleAlerts exampleRuntime
        (exampleHost ''95.0'' ''75.0'' ''25.0'' 1700000360000) (exampleWorld (Some 1700000000000) None))) =
      [''*Current CPU Usage: 95.0%*\<newline>*Threshold: 90%*\<newline>*Duration: 6.0 minutes*\<newline>\<newline>*Top CPU Processes:*\<newline>1. */usr/bin/very/long/path/to/a/very/long/command/...*\<newline>   PID: 1234 | User: user1 | CPU: 25.5% | RSS: 89012'']
   \<and> sinceAfter exampleRuntime (exampleHost ''95.0'' ''75.0'' ''25.0'' 1700000360000)
        (exampleWorld None None) = Some 1700000360000
   \<and> titled cpuTitle (cycleAlerts exampleRuntime
        (exampleHost ''95.0'' ''75.0'' ''25.0'' 1700000360000) (exampleWorld None None)) = []"
proof -
  have s: "cpuSample exampleRuntime (exampleHost ''95.0'' ''75.0'' ''25.0'' 1700000360000) = Some (Num 95)"
    by (simp add: cpuSample_def getCpuUsage_def eval_example trim_def is_js_space_def)
  have o: "atOrAbove (Some (Num 95)) CPU_THRESHOLD"
    by (simp add: atOrAbove_def CPU_THRESHOLD_def)
  show ?thesis
    using s o
      cpu_sustained_alert [OF s o, of "exampleWorld (Some 1700000000000) None"]
      cpu_sustained_alert [OF s o, of "exampleWorld None None"]
    by (simp add: sinceNow_def CPU_OVER_THRESHOLD_DURATION_def CPU_THRESHOLD_def
        eval_example eval_text eval_format cpuAlert_def)
qed

section \<open>The reset of the sustained timer: C2\<close>

text \<open>
  C2. In a cycle whose CPU sample is absent or a number below the threshold, no CPU
  descriptor is produced and the state is unset after the cycle. Hence, when such a
  cycle is followed by cycles at or above the threshold, the first of them at a time
  \<open>t1\<close>, a later cycle at or above the threshold produces a CPU descriptor if and only
  if the sustained duration has passed since \<open>t1\<close>, whatever the state was before.
\<close>

theorem cpu_reset_restarts_timer:
  assumes reset: "belowOrAbsent (cpuSample rt h0) CPU_THRESHOLD"
  shows "titled cpuTitle (cycleAlerts rt h0 w) = []
    \<and> sinceAfter rt h0 w = None
    \<and> (\<forall>h1 hs h2.
          atOrAbove (cpuSample rt h1) CPU_THRESHOLD
          \<and> list_all (\<lambda>h. atOrAbove (cpuSample rt h) CPU_THRESHOLD) hs
          \<and> atOrAbove (cpuSample rt h2) CPU_THRESHOLD
          \<and> date_now h1 \<noteq> 0 \<longrightarrow>
          (\<exists>w'. runCycles rt (h0 # h1 # hs) w = Inr w'
             \<and> cpuOverThresholdSince w' = Some (date_now h1)
             \<and> (titled cpuTitle (cycleAlerts rt h2 w') \<noteq> [] \<longleftrightarrow>
                  CPU_OVER_THRESHOLD_DURATION \<le> date_now h2 - date_now h1)))"
proof -
  have no: "\<not> atOrAbove (cpuSample rt h0) CPU_THRESHOLD"
    using reset by (rule belowOrAbsent_not_atOrAbove)
  show ?thesis
    using cycle_not_over [OF no, of w] restart_after_reset [OF no, of _ _ _ w] by blast
qed

lemma example_cpuSample:
  "cpuSample exampleRuntime (exampleHost ''95.0'' mem swap now) = Some (Num 95)"
  "cpuSample exampleRuntime (exampleHost ''75.0'' mem swap now) = Some (Num 75)"
  "cpuSample exampleRuntime (exampleHost [] mem swap now) = Some NaN"
  by (simp_all add: cpuSample_def getCpuUsage_def eval_example trim_def is_js_space_def)

lemma example_date_now: "date_now (exampleHost cpu mem swap now) = now"
  by (simp add: exampleHost_def)

theorem cpu_reset_restarts_timer_witness:
  "belowOrAbsent (cpuSample exampleRuntime (exampleHost ''75.0'' ''75.0'' ''25.0'' 1700000240000)) CPU_THRESHOLD
   \<and> atOrAbove (cpuSample exampleRuntime (exampleHost ''95.0'' ''75.0'' ''25.0'' 1700000270000)) CPU_THRESHOLD
   \<and> atOrAbove (cpuSample exampleRuntime (exampleHost ''95.0'' ''75.0'' ''25.0'' 1700000540000)) CPU_THRESHOLD
   \<and> sinceAfter exampleRuntime (exampleHost ''75.0'' ''75.0'' ''25.0'' 1700000240000)
        (exampleWorld (Some 1700000000000) None) = None
   \<and> (\<exists>w'. runCycles exampleRuntime
              [exampleHost ''75.0'' ''75.0'' ''25.0'' 1700000240000,
               exampleHost ''95.0'' ''75.0'' ''25.0'' 1700000270000]
              (exampleWorld (Some 1700000000000) None) = Inr w'
         \<and> cpuOverThresholdSince w' = Some 1700000270000
         \<and> titled cpuTitle (cycleAlerts exampleRuntime
              (exampleHost ''95.0'' ''75.0'' ''25.0'' 1700000540000) w') = [])"
proof -
  have b: "belowOrAbsent (cpuSample exampleRuntime (exampleHost ''75.0'' ''75.0'' ''25.0'' 1700000240000)) CPU_THRESHOLD"
    by (simp add: example_cpuSample belowOrAbsent_def CPU_THRESHOLD_def)
  have o: "atOrAbove (cpuSample exampleRuntime (exampleHost ''95.0'' ''75.0'' ''25.0'' 1700000270000)) CPU_THRESHOLD"
    "atOrAbove (cpuSample exampleRuntime (exampleHost ''95.0'' ''75.0'' ''25.0'' 1700000540000)) CPU_THRESHOLD"
    by (simp_all add: example_cpuSample atOrAbove_def CPU_THRESHOLD_def)
  note t = cpu_reset_restarts_timer [OF b, of "exampleWorld (Some 1700000000000) None"]
  from t have r: "sinceAfter exampleRuntime (exampleHost ''75.0'' ''75.0'' ''25.0'' 1700000240000)
        (exampleWorld (Some 1700000000000) None) = None"
    by blast
  note i = t [THEN conjunct2, THEN conjunct2,
      THEN spec [where x = "exampleHost ''95.0'' ''75.0'' ''25.0'' 1700000270000"],
      THEN spec [where x = "[]"],
      THEN spec [where x = "exampleHost ''95.0'' ''75.0'' ''25.0'' 1700000540000"]]
  from i o have "\<exists>w'. runCycles exampleRuntime
              [exampleHost ''75.0'' ''75.0'' ''25.0'' 1700000240000,
               exampleHost ''95.0'' ''75.0'' ''25.0'' 1700000270000]
              (exampleWorld (Some 1700000000000) None) = Inr w'
         \<and> cpuOverThresholdSince w' = Some (date_now (exampleHost ''95.0'' ''75.0'' ''25.0'' 1700000270000))
         \<and> (titled cpuTitle (cycleAlerts exampleRuntime
              (exampleHost ''95.0'' ''75.0'' ''25.0'' 1700000540000) w') \<noteq> [] \<longleftrightarrow>
              CPU_OVER_THRESHOLD_DURATION \<le> date_now (exampleHost ''95.0'' ''75.0'' ''25.0'' 1700000540000)
                 - date_now (exampleHost ''95.0'' ''75.0'' ''25.0'' 1700000270000))"
    by (simp add: example_date_now del: runCycles.simps)
  then have "\<exists>w'. runCycles exampleRuntime
              [exampleHost ''75.0'' ''75.0'' ''25.0'' 1700000240000,
               exampleHost ''95.0'' ''75.0'' ''25.0'' 1700000270000]
              (exampleWorld (Some 1700000000000) None) = Inr w'
         \<and> cpuOverThresholdSince w' = Some 1700000270000
         \<and> titled cpuTitle (cycleAlerts exampleRuntime
              (exampleHost ''95.0'' ''75.0'' ''25.0'' 1700000540000) w') = []"
    by (simp add: example_date_now CPU_OVER_THRESHOLD_DURATION_def del: runCycles.simps)
  with b o r show ?thesis by blast
qed

section \<open>Memory and swap: C5\<close>

lemma memBranch_over:
  "atOrAbove mem MEM_THRESHOLD \<Longrightarrow> \<exists>a. memBranch rt h mem = [a] \<and> a_title a = memTitle"
  by (cases mem) (simp_all add: memBranch_def atOrAbove_def js_ge_atOrAbove Let_def)

lemma memBranch_not_over: "\<not> atOrAbove mem MEM_THRESHOLD \<Longrightarrow> memBranch rt h mem = []"
  by (cases mem) (simp_all add: memBranch_def js_ge_atOrAbove)

lemma swapBranch_over:
  "atOrAbove swap SWAP_THRESHOLD \<Longrightarrow> \<exists>a. swapBranch rt h swap = [a] \<and> a_title a = swapTitle"
  by (cases swap) (simp_all add: swapBranch_def atOrAbove_def js_ge_atOrAbove Let_def)

lemma swapBranch_not_over: "\<not> atOrAbove swap SWAP_THRESHOLD \<Longrightarrow> swapBranch rt h swap = []"
  by (cases swap) (simp_all add: swapBranch_def js_ge_atOrAbove)

lemma memBranch_body:
  "atOrAbove (Some m) MEM_THRESHOLD \<Longrightarrow>
   map a_value (memBranch rt h (Some m)) =
     [''*Current Memory Usage: '' @ toFixed1 rt m @ ''%*\<newline>*Threshold: '' @ show_int MEM_THRESHOLD @ ''%*''
       @ (case getDetailedMemoryInfo h of
            Some d \<Rightarrow> ''\<newline>*Memory Breakdown:*\<newline>'' @ bullet @ '' Total: '' @ mi_total d
               @ ''\<newline>'' @ bullet @ '' Used: '' @ mi_used d
               @ ''\<newline>'' @ bullet @ '' Available: '' @ mi_available d
               @ ''\<newline>'' @ bullet @ '' Cache: '' @ mi_cache d
          | None \<Rightarrow> [])
       @ ''\<newline>\<newline>*Top Memory Processes:*\<newline>''
       @ formatProcessList rt (Some (getTopMemoryProcesses h 8)) ''memory'']"
  by (simp add: memBranch_def js_ge_atOrAbove Let_def split: option.split)

lemma swapBranch_body:
  "atOrAbove (Some s) SWAP_THRESHOLD \<Longrightarrow>
   map a_value (swapBranch rt h (Some s)) =
     [''*Current Swap Usage: '' @ toFixed1 rt s @ ''%*\<newline>*Threshold: '' @ show_int SWAP_THRESHOLD @ ''%*''
       @ (case getDetailedSwapInfo h of
            Some d \<Rightarrow> ''\<newline>*Swap Breakdown:*\<newline>'' @ bullet @ '' Total: '' @ sw_total d
               @ ''\<newline>'' @ bullet @ '' Used: '' @ sw_used d
               @ ''\<newline>'' @ bullet @ '' Free: '' @ sw_free d
          | None \<Rightarrow> [])]"
  by (simp add: swapBranch_def js_ge_atOrAbove Let_def split: option.split)


lemma cycleAlerts_split:
  "cycleAlerts rt h w = titled cpuTitle (cycleAlerts rt h w) @ titled memTitle (cycleAlerts rt h w)
     @ titled swapTitle (cycleAlerts rt h w)"
  unfolding cycle_cpu_alerts cycle_mem_alerts cycle_swap_alerts by (rule cycleAlerts_eq)


lemma example_samples:
  "memSample exampleRuntime (exampleHost cpu ''95.0'' swap now) = Some (Num 95)"
  "memSample exampleRuntime (exampleHost cpu ''75.0'' swap now) = Some (Num 75)"
  "memSample exampleRuntime (exampleHost cpu [] swap now) = Some NaN"
  "swapSample exampleRuntime (exampleHost cpu mem ''75.0'' now) = Some (Num 75)"
  "swapSample exampleRuntime (exampleHost cpu mem ''25.0'' now) = Some (Num 25)"
  "swapSample exampleRuntime (exampleHost cpu mem [] now) = Some NaN"
  by (simp_all add: memSample_def swapSample_def getMemUsage_def getSwapUsage_def eval_example
      trim_def is_js_space_def)



section \<open>A NaN sample: C10\<close>

lemma provider_parses:
  "exec_cpu h = Inr out \<Longrightarrow> getCpuUsage rt h = (Some (parseFloat rt (trim out)), [])"
  "exec_mem h = Inr out \<Longrightarrow> getMemUsage rt h = (Some (parseFloat rt (trim out)), [])"
  "exec_swap h = Inr out \<Longrightarrow> getSwapUsage rt h = (Some (parseFloat rt (trim out)), [])"
  by (simp_all add: getCpuUsage_def getMemUsage_def getSwapUsage_def)

lemma provider_present:
  "fst (getCpuUsage rt h) = Some v \<Longrightarrow> getCpuUsage rt h = (Some v, [])"
  "fst (getMemUsage rt h) = Some v \<Longrightarrow> getMemUsage rt h = (Some v, [])"
  "fst (getSwapUsage rt h) = Some v \<Longrightarrow> getSwapUsage rt h = (Some v, [])"
  by (simp_all add: getCpuUsage_def getMemUsage_def getSwapUsage_def split: sum.splits)

lemma branch_frame:
  "cpuBranch rt (h\<lparr>exec_cpu := x\<rparr>) c now s = cpuBranch rt h c now s"
  "memBranch rt (h\<lparr>exec_cpu := x\<rparr>) m = memBranch rt h m"
  "swapBranch rt (h\<lparr>exec_cpu := x\<rparr>) sw = swapBranch rt h sw"
  "cpuBranch rt (h\<lparr>exec_mem := x\<rparr>) c now s = cpuBranch rt h c now s"
  "memBranch rt (h\<lparr>exec_mem := x\<rparr>) m = memBranch rt h m"
  "swapBranch rt (h\<lparr>exec_mem := x\<rparr>) sw = swapBranch rt h sw"
  "cpuBranch rt (h\<lparr>exec_swap := x\<rparr>) c now s = cpuBranch rt h c now s"
  "memBranch rt (h\<lparr>exec_swap := x\<rparr>) m = memBranch rt h m"
  "swapBranch rt (h\<lparr>exec_swap := x\<rparr>) sw = swapBranch rt h sw"
  by (simp_all add: cpuBranch_def memBranch_def swapBranch_def cpuAlert_def Let_def
      cong: option.case_cong if_cong)

lemma gate_frame:
  "cooldownGate rt (h\<lparr>exec_cpu := x\<rparr>) alerts w = cooldownGate rt h alerts w"
  "cooldownGate rt (h\<lparr>exec_mem := x\<rparr>) alerts w = cooldownGate rt h alerts w"
  "cooldownGate rt (h\<lparr>exec_swap := x\<rparr>) alerts w = cooldownGate rt h alerts w"
  by (simp_all add: cooldownGate_def getLastAlertTime_def sendSlackAlert_def composeMessage_def
      messageText_def attachmentOf_def setLastAlertTime_def writeFileSync_def Let_def
      cong: option.case_cong sum.case_cong prod.case_cong if_cong)

lemma provider_frame:
  "getMemUsage rt (h\<lparr>exec_cpu := x\<rparr>) = getMemUsage rt h"
  "getSwapUsage rt (h\<lparr>exec_cpu := x\<rparr>) = getSwapUsage rt h"
  "getCpuUsage rt (h\<lparr>exec_mem := x\<rparr>) = getCpuUsage rt h"
  "getSwapUsage rt (h\<lparr>exec_mem := x\<rparr>) = getSwapUsage rt h"
  "getCpuUsage rt (h\<lparr>exec_swap := x\<rparr>) = getCpuUsage rt h"
  "getMemUsage rt (h\<lparr>exec_swap := x\<rparr>) = getMemUsage rt h"
  by (simp_all add: getCpuUsage_def getMemUsage_def getSwapUsage_def)

lemma cpuBranch_nan_like_below:
  "q < of_int CPU_THRESHOLD \<Longrightarrow>
   cpuBranch rt h (Some NaN) now since0 = cpuBranch rt h (Some (Num q)) now since0"
  by (simp add: cpuBranch_def)

lemma memBranch_nan_like_below:
  "q < of_int MEM_THRESHOLD \<Longrightarrow> memBranch rt h (Some NaN) = memBranch rt h (Some (Num q))"
  by (simp add: memBranch_def)

lemma swapBranch_nan_like_below:
  "q < of_int SWAP_THRESHOLD \<Longrightarrow> swapBranch rt h (Some NaN) = swapBranch rt h (Some (Num q))"
  by (simp add: swapBranch_def)

lemma cycle_nan_like_below_cpu:
  assumes "cpuSample rt h = Some NaN" and "parseFloat rt (trim out) = Num q"
    and "q < of_int CPU_THRESHOLD"
  shows "checkSystemHealth rt (h\<lparr>exec_cpu := Inr out\<rparr>) w = checkSystemHealth rt h w"
proof -
  have a: "getCpuUsage rt h = (Some NaN, [])"
    using assms(1) by (simp add: cpuSample_def provider_present)
  have b: "getCpuUsage rt (h\<lparr>exec_cpu := Inr out\<rparr>) = (Some (Num q), [])"
    using assms(2) by (simp add: provider_parses)
  have "evaluateThresholds rt (h\<lparr>exec_cpu := Inr out\<rparr>) w = evaluateThresholds rt h w"
    using cpuBranch_nan_like_below [OF assms(3), of rt h "date_now h" "cpuOverThresholdSince w"]
    by (simp add: evaluateThresholds_def a b provider_frame branch_frame Let_def case_prod_beta)
  then show ?thesis by (simp add: checkSystemHealth_def gate_frame)
qed

lemma cycle_nan_like_below_mem:
  assumes "memSample rt h = Some NaN" and "parseFloat rt (trim out) = Num q"
    and "q < of_int MEM_THRESHOLD"
  shows "checkSystemHealth rt (h\<lparr>exec_mem := Inr out\<rparr>) w = checkSystemHealth rt h w"
proof -
  have a: "getMemUsage rt h = (Some NaN, [])"
    using assms(1) by (simp add: memSample_def provider_present)
  have b: "getMemUsage rt (h\<lparr>exec_mem := Inr out\<rparr>) = (Some (Num q), [])"
    using assms(2) by (simp add: provider_parses)
  have "evaluateThresholds rt (h\<lparr>exec_mem := Inr out\<rparr>) w = evaluateThresholds rt h w"
    using memBranch_nan_like_below [OF assms(3), of rt h]
    by (simp add: evaluateThresholds_def a b provider_frame branch_frame Let_def case_prod_beta)
  then show ?thesis by (simp add: checkSystemHealth_def gate_frame)
qed

lemma cycle_nan_like_below_swap:
  assumes "swapSample rt h = Some NaN" and "parseFloat rt (trim out) = Num q"
    and "q < of_int SWAP_THRESHOLD"
  shows "checkSystemHealth rt (h\<lparr>exec_swap := Inr out\<rparr>) w = checkSystemHealth rt h w"
proof -
  have a: "getSwapUsage rt h = (Some NaN, [])"
    using assms(1) by (simp add: swapSample_def provider_present)
  have b: "getSwapUsage rt (h\<lparr>exec_swap := Inr out\<rparr>) = (Some (Num q), [])"
    using assms(2) by (simp add: provider_parses)
  have "evaluateThresholds rt (h\<lparr>exec_swap := Inr out\<rparr>) w = evaluateThresholds rt h w"
    using swapBranch_nan_like_below [OF assms(3), of rt h]
    by (simp add: evaluateThresholds_def a b provider_frame branch_frame Let_def case_prod_beta)
  then show ?thesis by (simp add: checkSystemHealth_def gate_frame)
qed

text \<open>
  C10. When a provider returns \<open>NaN\<close> (the command ran and its output does not parse:
  the sample is neither \<^verbatim>\<open>null\<close> nor a number), no descriptor is produced for that
  metric, and for the CPU the state is unset after the cycle. The whole cycle is the
  one of a host that differs only in that the command's output parses to a number
  below the threshold.
\<close>

theorem nan_sample_non_triggering:
  "(cpuSample rt h = Some NaN \<longrightarrow>
      titled cpuTitle (cycleAlerts rt h w) = [] \<and> sinceAfter rt h w = None)
   \<and> (memSample rt h = Some NaN \<longrightarrow> titled memTitle (cycleAlerts rt h w) = [])
   \<and> (swapSample rt h = Some NaN \<longrightarrow> titled swapTitle (cycleAlerts rt h w) = [])
   \<and> (cpuSample rt h = Some NaN \<and> parseFloat rt (trim out) = Num q \<and> q < of_int CPU_THRESHOLD \<longrightarrow>
        checkSystemHealth rt (h\<lparr>exec_cpu := Inr out\<rparr>) w = checkSystemHealth rt h w)
   \<and> (memSample rt h = Some NaN \<and> parseFloat rt (trim out) = Num q \<and> q < of_int MEM_THRESHOLD \<longrightarrow>
        checkSystemHealth rt (h\<lparr>exec_mem := Inr out\<rparr>) w = checkSystemHealth rt h w)
   \<and> (swapSample rt h = Some NaN \<and> parseFloat rt (trim out) = Num q \<and> q < of_int SWAP_THRESHOLD \<longrightarrow>
        checkSystemHealth rt (h\<lparr>exec_swap := Inr out\<rparr>) w = checkSystemHealth rt h w)
   \<and> (exec_cpu h = Inr out \<and> parseFloat rt (trim out) = NaN \<longrightarrow> cpuSample rt h = Some NaN)
   \<and> (exec_mem h = Inr out \<and> parseFloat rt (trim out) = NaN \<longrightarrow> memSample rt h = Some NaN)
   \<and> (exec_swap h = Inr out \<and> parseFloat rt (trim out) = NaN \<longrightarrow> swapSample rt h = Some NaN)"
proof -
  have cpu: "titled cpuTitle (cycleAlerts rt h w) = [] \<and> sinceAfter rt h w = None"
    if "cpuSample rt h = Some NaN"
  proof -
    have "\<not> atOrAbove (cpuSample rt h) CPU_THRESHOLD" using that by (simp add: atOrAbove_def)
    then show ?thesis using cycle_not_over by blast
  qed
  have mem: "titled memTitle (cycleAlerts rt h w) = []" if "memSample rt h = Some NaN"
    using that by (simp add: cycle_mem_alerts memBranch_def)
  have swap: "titled swapTitle (cycleAlerts rt h w) = []" if "swapSample rt h = Some NaN"
    using that by (simp add: cycle_swap_alerts swapBranch_def)
  have parsed: "exec_cpu h = Inr out \<and> parseFloat rt (trim out) = NaN \<longrightarrow> cpuSample rt h = Some NaN"
    "exec_mem h = Inr out \<and> parseFloat rt (trim out) = NaN \<longrightarrow> memSample rt h = Some NaN"
    "exec_swap h = Inr out \<and> parseFloat rt (trim out) = NaN \<longrightarrow> swapSample rt h = Some NaN"
    by (simp_all add: cpuSample_def memSample_def swapSample_def provider_parses)
  show ?thesis
    using cpu mem swap parsed cycle_nan_like_below_cpu [of rt h out q w]
      cycle_nan_like_below_mem [of rt h out q w] cycle_nan_like_below_swap [of rt h out q w]
    by blast
qed

theorem nan_sample_non_triggering_witness:
  "cpuSample exampleRuntime (exampleHost [] ''75.0'' ''25.0'' 1700000360000) = Some NaN
   \<and> parseFloat exampleRuntime (trim ''75.0\<newline>'') = Num 75
   \<and> (75 :: rat) < of_int CPU_THRESHOLD
   \<and> titled cpuTitle (cycleAlerts exampleRuntime (exampleHost [] ''75.0'' ''25.0'' 1700000360000)
        (exampleWorld (Some 1700000000000) None)) = []
   \<and> sinceAfter exampleRuntime (exampleHost [] ''75.0'' ''25.0'' 1700000360000)
        (exampleWorld (Some 1700000000000) None) = None
   \<and> checkSystemHealth exampleRuntime
        ((exampleHost [] ''75.0'' ''25.0'' 1700000360000)\<lparr>exec_cpu := Inr ''75.0\<newline>''\<rparr>)
        (exampleWorld (Some 1700000000000) None)
      = checkSystemHealth exampleRuntime (exampleHost [] ''75.0'' ''25.0'' 1700000360000)
        (exampleWorld (Some 1700000000000) None)"
proof -
  have n: "cpuSample exampleRuntime (exampleHost [] ''75.0'' ''25.0'' 1700000360000) = Some NaN"
    by (rule example_cpuSample)
  have p: "parseFloat exampleRuntime (trim ''75.0\<newline>'') = Num 75"
    by (simp add: exampleRuntime_def trim_def is_js_space_def)
  have q: "(75 :: rat) < of_int CPU_THRESHOLD" by (simp add: CPU_THRESHOLD_def)
  show ?thesis
    using n p q
      nan_sample_non_triggering [of exampleRuntime "exampleHost [] ''75.0'' ''25.0'' 1700000360000"
        "exampleWorld (Some 1700000000000) None" "''75.0\<newline>''" 75]
    by blast
qed

section \<open>The order of the descriptors: C6\<close>

lemma composeMessage_titles:
  "map at_title (m_attachments (composeMessage rt h alerts)) = map a_title alerts"
proof -
  have "map at_title (map (\<lambda>(i, a). attachmentOf h i a) (enumerate 0 alerts))
      = map (a_title \<circ> snd) (enumerate 0 alerts)"
    by (simp add: attachmentOf_def case_prod_beta)
  also have "\<dots> = map a_title (map snd (enumerate 0 alerts))" by (simp only: map_map)
  also have "\<dots> = map a_title alerts" by (simp only: map_snd_enumerate)
  finally show ?thesis by (simp add: composeMessage_def)
qed

lemma composeMessage_texts:
  "map at_text (m_attachments (composeMessage rt h alerts)) = map a_value alerts"
proof -
  have "map at_text (map (\<lambda>(i, a). attachmentOf h i a) (enumerate 0 alerts))
      = map (a_value \<circ> snd) (enumerate 0 alerts)"
    by (simp add: attachmentOf_def case_prod_beta)
  also have "\<dots> = map a_value (map snd (enumerate 0 alerts))" by (simp only: map_map)
  also have "\<dots> = map a_value alerts" by (simp only: map_snd_enumerate)
  finally show ?thesis by (simp add: composeMessage_def)
qed

lemma cycleAlerts_titles_subseq:
  "subseq (map a_title (cycleAlerts rt h w)) [cpuTitle, memTitle, swapTitle]"
  using cpuBranch_alerts_cases [of rt h "cpuSample rt h" "date_now h" "cpuOverThresholdSince w"]
    memBranch_cases [of rt h "memSample rt h"] swapBranch_cases [of rt h "swapSample rt h"]
    titles_distinct
  by (auto simp: cycleAlerts_eq)

lemma cycleAlerts_length: "length (cycleAlerts rt h w) \<le> 3"
  using cpuBranch_alerts_cases [of rt h "cpuSample rt h" "date_now h" "cpuOverThresholdSince w"]
    memBranch_cases [of rt h "memSample rt h"] swapBranch_cases [of rt h "swapSample rt h"]
  by (auto simp: cycleAlerts_eq)

lemma cycleAlerts_all_three:
  assumes "atOrAbove (cpuSample rt h) CPU_THRESHOLD"
    and "CPU_OVER_THRESHOLD_DURATION \<le> date_now h - sinceNow (cpuOverThresholdSince w) (date_now h)"
    and "atOrAbove (memSample rt h) MEM_THRESHOLD"
    and "atOrAbove (swapSample rt h) SWAP_THRESHOLD"
  shows "map a_title (cycleAlerts rt h w) = [cpuTitle, memTitle, swapTitle]"
proof -
  have "titled cpuTitle (cycleAlerts rt h w) \<noteq> []"
    using cycle_over(2) [OF assms(1), of w] assms(2) by simp
  then obtain a where a: "titled cpuTitle (cycleAlerts rt h w) = [a]" "a_title a = cpuTitle"
    using cpuBranch_alerts_cases [of rt h "cpuSample rt h" "date_now h" "cpuOverThresholdSince w"]
    by (auto simp: cycle_cpu_alerts)
  obtain b where b: "titled memTitle (cycleAlerts rt h w) = [b]" "a_title b = memTitle"
    using memBranch_over [OF assms(3), of rt h] by (auto simp: cycle_mem_alerts)
  obtain c where c: "titled swapTitle (cycleAlerts rt h w) = [c]" "a_title c = swapTitle"
    using swapBranch_over [OF assms(4), of rt h] by (auto simp: cycle_swap_alerts)
  have "cycleAlerts rt h w = [a, b, c]"
    using cycleAlerts_split [of rt h w] a(1) b(1) c(1) by simp
  then show ?thesis using a b c by simp
qed

lemma evaluator_frame:
  "posted (snd (evaluateThresholds rt h w)) = posted w"
  "last_alert_file (snd (evaluateThresholds rt h w)) = last_alert_file w"
  by (simp_all add: evaluateThresholds_def case_prod_beta Let_def)

lemma cooldownGate_posted:
  "\<exists>w'. cooldownGate rt h alerts w = Inr w'
     \<and> (posted w' = posted w \<or> posted w' = posted w @ [composeMessage rt h alerts])"
proof -
  obtain w' where "sendSlackAlert rt h alerts (say (snd (getLastAlertTime rt h w)) w) = Inr w'"
    "posted w' = posted w @ [composeMessage rt h alerts]"
    using sendSlackAlert_returns [of rt h alerts "say (snd (getLastAlertTime rt h w)) w"] by auto
  then show ?thesis
    by (simp add: cooldownGate_def Let_def case_prod_beta)
qed

lemma checkSystemHealth_eq:
  "checkSystemHealth rt h w = cooldownGate rt h (cycleAlerts rt h w) (snd (evaluateThresholds rt h w))"
  by (simp add: checkSystemHealth_def cycleAlerts_def case_prod_beta)

text \<open>
  C6. The descriptors of a cycle are at most three, and their titles, in order, are
  taken from CPU, memory, swap in this order (the three titles differ). The message
  composed from a list of alerts has one section per alert, in the alerts' order, with
  the alert's title and body. When the CPU condition holds for the sustained duration
  and the memory and swap samples are at or above their thresholds, the titles of the
  cycle's descriptors, and of the sections of the message composed from them, are
  exactly CPU, memory, swap; a message the cycle hands to the transport is that one.
\<close>

theorem alerts_in_fixed_order:
  "subseq (map a_title (cycleAlerts rt h w)) [cpuTitle, memTitle, swapTitle]
   \<and> length (cycleAlerts rt h w) \<le> 3
   \<and> distinct [cpuTitle, memTitle, swapTitle]
   \<and> map at_title (m_attachments (composeMessage rt h alerts)) = map a_title alerts
   \<and> map at_text (m_attachments (composeMessage rt h alerts)) = map a_value alerts
   \<and> (atOrAbove (cpuSample rt h) CPU_THRESHOLD
        \<and> CPU_OVER_THRESHOLD_DURATION \<le> date_now h - sinceNow (cpuOverThresholdSince w) (date_now h)
        \<and> atOrAbove (memSample rt h) MEM_THRESHOLD
        \<and> atOrAbove (swapSample rt h) SWAP_THRESHOLD \<longrightarrow>
        map a_title (cycleAlerts rt h w) = [cpuTitle, memTitle, swapTitle]
        \<and> map at_title (m_attachments (composeMessage rt h (cycleAlerts rt h w)))
            = [cpuTitle, memTitle, swapTitle])
   \<and> (\<exists>w'. checkSystemHealth rt h w = Inr w'
         \<and> (posted w' = posted w
              \<or> posted w' = posted w @ [composeMessage rt h (cycleAlerts rt h w)]))"
proof -
  have d: "distinct [cpuTitle, memTitle, swapTitle]" using titles_distinct by simp
  have three: "map a_title (cycleAlerts rt h w) = [cpuTitle, memTitle, swapTitle]
        \<and> map at_title (m_attachments (composeMessage rt h (cycleAlerts rt h w)))
            = [cpuTitle, memTitle, swapTitle]"
    if "atOrAbove (cpuSample rt h) CPU_THRESHOLD
        \<and> CPU_OVER_THRESHOLD_DURATION \<le> date_now h - sinceNow (cpuOverThresholdSince w) (date_now h)
        \<and> atOrAbove (memSample rt h) MEM_THRESHOLD
        \<and> atOrAbove (swapSample rt h) SWAP_THRESHOLD"
    using that cycleAlerts_all_three [of rt h w] by (simp add: composeMessage_titles)
  have p: "\<exists>w'. checkSystemHealth rt h w = Inr w'
         \<and> (posted w' = posted w
              \<or> posted w' = posted w @ [composeMessage rt h (cycleAlerts rt h w)])"
    using cooldownGate_posted [of rt h "cycleAlerts rt h w" "snd (evaluateThresholds rt h w)"]
    by (simp add: checkSystemHealth_eq evaluator_frame)
  show ?thesis
    using cycleAlerts_titles_subseq [of rt h w] cycleAlerts_length [of rt h w] d
      composeMessage_titles [of rt h alerts] composeMessage_texts [of rt h alerts] three p
    by blast
qed

theorem alerts_in_fixed_order_witness:
  "atOrAbove (cpuSample exampleRuntime (exampleHost ''95.0'' ''95.0'' ''75.0'' 1700000360000)) CPU_THRESHOLD
   \<and> CPU_OVER_THRESHOLD_DURATION \<le> date_now (exampleHost ''95.0'' ''95.0'' ''75.0'' 1700000360000)
        - sinceNow (cpuOverThresholdSince (exampleWorld (Some 1700000000000) None))
            (date_now (exampleHost ''95.0'' ''95.0'' ''75.0'' 1700000360000))
   \<and> atOrAbove (memSample exampleRuntime (exampleHost ''95.0'' ''95.0'' ''75.0'' 1700000360000)) MEM_THRESHOLD
   \<and> atOrAbove (swapSample exampleRuntime (exampleHost ''95.0'' ''95.0'' ''75.0'' 1700000360000)) SWAP_THRESHOLD
   \<and> map a_title (cycleAlerts exampleRuntime (exampleHost ''95.0'' ''95.0'' ''75.0'' 1700000360000)
        (exampleWorld (Some 1700000000000) None)) = [cpuTitle, memTitle, swapTitle]
   \<and> map at_title (m_attachments (composeMessage exampleRuntime
        (exampleHost ''95.0'' ''95.0'' ''75.0'' 1700000360000)
        (cycleAlerts exampleRuntime (exampleHost ''95.0'' ''95.0'' ''75.0'' 1700000360000)
           (exampleWorld (Some 1700000000000) None)))) = [cpuTitle, memTitle, swapTitle]"
proof -
  have c: "atOrAbove (cpuSample exampleRuntime (exampleHost ''95.0'' ''95.0'' ''75.0'' 1700000360000)) CPU_THRESHOLD"
    by (simp add: example_cpuSample atOrAbove_def CPU_THRESHOLD_def)
  have e: "CPU_OVER_THRESHOLD_DURATION \<le> date_now (exampleHost ''95.0'' ''95.0'' ''75.0'' 1700000360000)
        - sinceNow (cpuOverThresholdSince (exampleWorld (Some 1700000000000) None))
            (date_now (exampleHost ''95.0'' ''95.0'' ''75.0'' 1700000360000))"
    by (simp add: example_date_now exampleWorld_def sinceNow_def CPU_OVER_THRESHOLD_DURATION_def)
  have m: "atOrAbove (memSample exampleRuntime (exampleHost ''95.0'' ''95.0'' ''75.0'' 1700000360000)) MEM_THRESHOLD"
    by (simp add: example_samples atOrAbove_def MEM_THRESHOLD_def)
  have s: "atOrAbove (swapSample exampleRuntime (exampleHost ''95.0'' ''95.0'' ''75.0'' 1700000360000)) SWAP_THRESHOLD"
    by (simp add: example_samples atOrAbove_def SWAP_THRESHOLD_def)
  show ?thesis
    using c e m s
      alerts_in_fixed_order [of exampleRuntime "exampleHost ''95.0'' ''95.0'' ''75.0'' 1700000360000"
        "exampleWorld (Some 1700000000000) None" "[]"]
    by blast
qed

section \<open>The cooldown gate: C3\<close>

lemma getLastAlertTime_reads_file:
  "last_alert_file w1 = last_alert_file w2 \<Longrightarrow> getLastAlertTime rt h w1 = getLastAlertTime rt h w2"
  by (simp add: getLastAlertTime_def)

lemma cooldownElapsed_reads_file:
  "last_alert_file w1 = last_alert_file w2 \<Longrightarrow> cooldownElapsed rt h w1 = cooldownElapsed rt h w2"
  by (simp add: cooldownElapsed_def getLastAlertTime_reads_file [of w1 w2])

lemma cooldownGate_dispatch:
  assumes "alerts \<noteq> []" and "cooldownElapsed rt h w"
  shows "cooldownGate rt h alerts w = sendSlackAlert rt h alerts (say (snd (getLastAlertTime rt h w)) w)"
  using assms by (simp add: cooldownGate_def cooldownElapsed_def case_prod_beta Let_def)

lemma cooldownGate_suppress:
  assumes "alerts \<noteq> []" and "\<not> cooldownElapsed rt h w"
  shows "cooldownGate rt h alerts w =
     Inr (say [Out ''Alert(s) detected, but cooldown still active.'']
            (say (snd (getLastAlertTime rt h w)) w))"
  using assms by (simp add: cooldownGate_def cooldownElapsed_def case_prod_beta Let_def)

lemma cooldownElapsed_number:
  "fst (getLastAlertTime rt h w) = Num t \<Longrightarrow>
   cooldownElapsed rt h w \<longleftrightarrow> of_int ALERT_COOLDOWN \<le> of_int (date_now h) - t"
  by (simp add: cooldownElapsed_def)

lemma cooldownElapsed_nan:
  "fst (getLastAlertTime rt h w) = NaN \<Longrightarrow> \<not> cooldownElapsed rt h w"
  by (simp add: cooldownElapsed_def)

text \<open>
  C3. In a cycle whose descriptor list is not empty, a message is handed to the
  transport if and only if \<^verbatim>\<open>now - lastAlertTime >= ALERT_COOLDOWN\<close> holds for the time
  read from the file (for a number \<open>t\<close>: the cooldown has passed since \<open>t\<close>); the
  message is the one composed from all descriptors of the cycle. Otherwise nothing is
  handed over and nothing of the descriptors is kept: the world after the cycle is the
  evaluator's, with the lines logged by the read and the line "cooldown still active".
  The test reads only the time and the file, whatever metrics the descriptors are of:
  the gate decides the same for any two non-empty lists.
\<close>

theorem cooldown_gate_global:
  assumes nonempty: "cycleAlerts rt h w \<noteq> []"
  shows "\<exists>w'. checkSystemHealth rt h w = Inr w'
    \<and> (posted w' = posted w @ [composeMessage rt h (cycleAlerts rt h w)] \<longleftrightarrow> cooldownElapsed rt h w)
    \<and> (posted w' = posted w \<longleftrightarrow> \<not> cooldownElapsed rt h w)
    \<and> (\<not> cooldownElapsed rt h w \<longrightarrow>
          w' = say [Out ''Alert(s) detected, but cooldown still active.'']
                 (say (snd (getLastAlertTime rt h w)) (snd (evaluateThresholds rt h w))))
    \<and> (\<forall>t. fst (getLastAlertTime rt h w) = Num t \<longrightarrow>
          (cooldownElapsed rt h w \<longleftrightarrow> of_int ALERT_COOLDOWN \<le> of_int (date_now h) - t))
    \<and> (\<forall>alerts1 alerts2 w1 w2. alerts1 \<noteq> [] \<and> alerts2 \<noteq> []
          \<and> cooldownGate rt h alerts1 w = Inr w1 \<and> cooldownGate rt h alerts2 w = Inr w2 \<longrightarrow>
          (posted w1 = posted w \<longleftrightarrow> posted w2 = posted w))"
proof -
  let ?e = "snd (evaluateThresholds rt h w)"
  have fl: "last_alert_file ?e = last_alert_file w" by (rule evaluator_frame)
  have rd: "getLastAlertTime rt h ?e = getLastAlertTime rt h w"
    using fl by (rule getLastAlertTime_reads_file)
  have elapsed: "cooldownElapsed rt h ?e = cooldownElapsed rt h w"
    using fl by (rule cooldownElapsed_reads_file)
  have gate: "\<exists>w'. cooldownGate rt h alerts v = Inr w'
      \<and> (posted w' = posted v @ [composeMessage rt h alerts] \<longleftrightarrow> cooldownElapsed rt h v)
      \<and> (posted w' = posted v \<longleftrightarrow> \<not> cooldownElapsed rt h v)
      \<and> (\<not> cooldownElapsed rt h v \<longrightarrow>
          w' = say [Out ''Alert(s) detected, but cooldown still active.'']
                 (say (snd (getLastAlertTime rt h v)) v))"
    if "alerts \<noteq> []" for alerts v
  proof (cases "cooldownElapsed rt h v")
    case True
    obtain w' where "sendSlackAlert rt h alerts (say (snd (getLastAlertTime rt h v)) v) = Inr w'"
      "posted w' = posted v @ [composeMessage rt h alerts]"
      using sendSlackAlert_returns [of rt h alerts "say (snd (getLastAlertTime rt h v)) v"] by auto
    then show ?thesis using True that by (simp add: cooldownGate_dispatch)
  next
    case False
    then show ?thesis using that by (simp add: cooldownGate_suppress)
  qed
  have same: "posted w1 = posted w \<longleftrightarrow> posted w2 = posted w"
    if "alerts1 \<noteq> [] \<and> alerts2 \<noteq> []
          \<and> cooldownGate rt h alerts1 w = Inr w1 \<and> cooldownGate rt h alerts2 w = Inr w2"
    for alerts1 alerts2 w1 w2
    using that gate [of alerts1 w] gate [of alerts2 w] by auto
  obtain w' where w': "cooldownGate rt h (cycleAlerts rt h w) ?e = Inr w'"
      "posted w' = posted ?e @ [composeMessage rt h (cycleAlerts rt h w)] \<longleftrightarrow> cooldownElapsed rt h ?e"
      "posted w' = posted ?e \<longleftrightarrow> \<not> cooldownElapsed rt h ?e"
      "\<not> cooldownElapsed rt h ?e \<longrightarrow>
          w' = say [Out ''Alert(s) detected, but cooldown still active.'']
                 (say (snd (getLastAlertTime rt h ?e)) ?e)"
    using gate [OF nonempty, of ?e] by blast
  have "checkSystemHealth rt h w = Inr w'"
    using w'(1) by (simp add: checkSystemHealth_eq)
  moreover have "posted w' = posted w @ [composeMessage rt h (cycleAlerts rt h w)] \<longleftrightarrow> cooldownElapsed rt h w"
    using w'(2) by (simp add: evaluator_frame elapsed)
  moreover have "posted w' = posted w \<longleftrightarrow> \<not> cooldownElapsed rt h w"
    using w'(3) by (simp add: evaluator_frame elapsed)
  moreover have "\<not> cooldownElapsed rt h w \<longrightarrow>
          w' = say [Out ''Alert(s) detected, but cooldown still active.'']
                 (say (snd (getLastAlertTime rt h w)) ?e)"
    using w'(4) by (simp add: elapsed rd)
  moreover have "\<forall>t. fst (getLastAlertTime rt h w) = Num t \<longrightarrow>
          (cooldownElapsed rt h w \<longleftrightarrow> of_int ALERT_COOLDOWN \<le> of_int (date_now h) - t)"
    by (simp add: cooldownElapsed_number)
  ultimately show ?thesis using same by blast
qed

lemma titled_nonempty: "titled t alerts \<noteq> [] \<Longrightarrow> alerts \<noteq> []"
  by (auto simp: titled_def)

lemma example_memory_alert:
  "cycleAlerts exampleRuntime (exampleHost cpu ''95.0'' swap now) w \<noteq> []"
proof -
  have "atOrAbove (memSample exampleRuntime (exampleHost cpu ''95.0'' swap now)) MEM_THRESHOLD"
    by (simp add: example_samples atOrAbove_def MEM_THRESHOLD_def)
  then have "titled memTitle (cycleAlerts exampleRuntime (exampleHost cpu ''95.0'' swap now) w) \<noteq> []"
    using memBranch_over [of "memSample exampleRuntime (exampleHost cpu ''95.0'' swap now)"
        exampleRuntime "exampleHost cpu ''95.0'' swap now"]
    by (auto simp: cycle_mem_alerts)
  then show ?thesis by (rule titled_nonempty)
qed

lemma example_last_alert:
  "getLastAlertTime exampleRuntime (exampleHost cpu mem swap now) (exampleWorld since (Some ''1700000000000''))
     = (Num 1700000000000, [])"
  "getLastAlertTime exampleRuntime (exampleHost cpu mem swap now) (exampleWorld since None) = (Num 0, [])"
  by (simp_all add: getLastAlertTime_def eval_example)

theorem cooldown_gate_global_witness:
  "cycleAlerts exampleRuntime (exampleHost ''75.0'' ''95.0'' ''25.0'' 1700002100000)
       (exampleWorld None (Some ''1700000000000'')) \<noteq> []
   \<and> cooldownElapsed exampleRuntime (exampleHost ''75.0'' ''95.0'' ''25.0'' 1700002100000)
       (exampleWorld None (Some ''1700000000000''))
   \<and> (\<exists>w'. checkSystemHealth exampleRuntime (exampleHost ''75.0'' ''95.0'' ''25.0'' 1700002100000)
              (exampleWorld None (Some ''1700000000000'')) = Inr w'
         \<and> posted w' = [composeMessage exampleRuntime (exampleHost ''75.0'' ''95.0'' ''25.0'' 1700002100000)
              (cycleAlerts exampleRuntime (exampleHost ''75.0'' ''95.0'' ''25.0'' 1700002100000)
                 (exampleWorld None (Some ''1700000000000'')))])
   \<and> cycleAlerts exampleRuntime (exampleHost ''75.0'' ''95.0'' ''25.0'' 1700000900000)
       (exampleWorld None (Some ''1700000000000'')) \<noteq> []
   \<and> \<not> cooldownElapsed exampleRuntime (exampleHost ''75.0'' ''95.0'' ''25.0'' 1700000900000)
       (exampleWorld None (Some ''1700000000000''))
   \<and> (\<exists>w'. checkSystemHealth exampleRuntime (exampleHost ''75.0'' ''95.0'' ''25.0'' 1700000900000)
              (exampleWorld None (Some ''1700000000000'')) = Inr w'
         \<and> posted w' = [])"
proof -
  have p: "posted (exampleWorld None (Some ''1700000000000'')) = []"
    by (simp add: exampleWorld_def)
  have e35: "cooldownElapsed exampleRuntime (exampleHost ''75.0'' ''95.0'' ''25.0'' 1700002100000)
       (exampleWorld None (Some ''1700000000000''))"
    by (simp add: cooldownElapsed_def example_last_alert example_date_now ALERT_COOLDOWN_def)
  have e15: "\<not> cooldownElapsed exampleRuntime (exampleHost ''75.0'' ''95.0'' ''25.0'' 1700000900000)
       (exampleWorld None (Some ''1700000000000''))"
    by (simp add: cooldownElapsed_def example_last_alert example_date_now ALERT_COOLDOWN_def)
  note a35 = example_memory_alert [of "''75.0''" "''25.0''" 1700002100000
      "exampleWorld None (Some ''1700000000000'')"]
  note a15 = example_memory_alert [of "''75.0''" "''25.0''" 1700000900000
      "exampleWorld None (Some ''1700000000000'')"]
  from cooldown_gate_global [OF a35] e35 p
  have s35: "\<exists>w'. checkSystemHealth exampleRuntime (exampleHost ''75.0'' ''95.0'' ''25.0'' 1700002100000)
              (exampleWorld None (Some ''1700000000000'')) = Inr w'
         \<and> posted w' = [composeMessage exampleRuntime (exampleHost ''75.0'' ''95.0'' ''25.0'' 1700002100000)
              (cycleAlerts exampleRuntime (exampleHost ''75.0'' ''95.0'' ''25.0'' 1700002100000)
                 (exampleWorld None (Some ''1700000000000'')))]"
    by auto
  from cooldown_gate_global [OF a15] e15 p
  have s15: "\<exists>w'. checkSystemHealth exampleRuntime (exampleHost ''75.0'' ''95.0'' ''25.0'' 1700000900000)
              (exampleWorld None (Some ''1700000000000'')) = Inr w'
         \<and> posted w' = []"
    by auto
  from a35 e35 s35 a15 e15 s15 show ?thesis by blast
qed

section \<open>A failed send: C4\<close>

lemma sendSlackAlert_rejected:
  "axios_post h (composeMessage rt h alerts) = Inl msg \<Longrightarrow>
   sendSlackAlert rt h alerts w =
     Inr (say [Err (''Error sending Slack message: '' @ msg)]
            (w\<lparr>posted := posted w @ [composeMessage rt h alerts]\<rparr>))"
  by (simp add: sendSlackAlert_def Let_def)

lemma sendSlackAlert_resolved:
  "axios_post h (composeMessage rt h alerts) = Inr u \<Longrightarrow>
   sendSlackAlert rt h alerts w =
     setLastAlertTime h
       (say [Out (''Slack alert sent: '' @ join '', '' (map a_title alerts))]
          (w\<lparr>posted := posted w @ [composeMessage rt h alerts]\<rparr>))"
  by (simp add: sendSlackAlert_def Let_def setLastAlertTime_eq)

lemma sendSlackAlert_file:
  assumes "sendSlackAlert rt h alerts w = Inr w'"
  shows "last_alert_file w' =
     (case axios_post h (composeMessage rt h alerts) of
        Inl msg \<Rightarrow> last_alert_file w
      | Inr u \<Rightarrow> (case writeFileSync_answer h of
                    Written \<Rightarrow> Some (show_int (write_now h))
                  | ThrowsAtOpen msg \<Rightarrow> last_alert_file w
                  | ThrowsAfterOpen msg n \<Rightarrow> Some (take n (show_int (write_now h)))))"
  using assms
  by (auto simp: sendSlackAlert_def Let_def setLastAlertTime_eq split: sum.splits write_answer.splits)

text \<open>
  C4. \<^verbatim>\<open>sendSlackAlert\<close> always returns: no exception leaves it, nor the cycle, nor a
  run of cycles. When the transport rejects, the result is the world with the attempt
  recorded and the error logged, and nothing else: the file is as before, so the time
  any later cycle reads from it, and its cooldown test, are as before. The file
  differs after the call only if the transport resolved; when it resolved and the
  write succeeds, the file holds the time of the write.
\<close>

theorem failed_send_keeps_cooldown:
  "(\<exists>w'. sendSlackAlert rt h alerts w = Inr w')
   \<and> (axios_post h (composeMessage rt h alerts) = Inl msg \<longrightarrow>
        sendSlackAlert rt h alerts w =
          Inr (say [Err (''Error sending Slack message: '' @ msg)]
                 (w\<lparr>posted := posted w @ [composeMessage rt h alerts]\<rparr>)))
   \<and> (\<forall>w'. axios_post h (composeMessage rt h alerts) = Inl msg
          \<and> sendSlackAlert rt h alerts w = Inr w' \<longrightarrow>
          last_alert_file w' = last_alert_file w
          \<and> getLastAlertTime rt h2 w' = getLastAlertTime rt h2 w
          \<and> cooldownElapsed rt h2 w' = cooldownElapsed rt h2 w)
   \<and> (\<forall>w'. sendSlackAlert rt h alerts w = Inr w' \<and> last_alert_file w' \<noteq> last_alert_file w \<longrightarrow>
          (\<exists>u. axios_post h (composeMessage rt h alerts) = Inr u))
   \<and> (\<forall>u. axios_post h (composeMessage rt h alerts) = Inr u \<and> writeFileSync_answer h = Written \<longrightarrow>
          (\<exists>w'. sendSlackAlert rt h alerts w = Inr w'
             \<and> last_alert_file w' = Some (show_int (write_now h))))
   \<and> (\<exists>w'. checkSystemHealth rt h w = Inr w')
   \<and> (\<exists>w'. runCycles rt hs w = Inr w')"
proof -
  have returns: "\<exists>w'. sendSlackAlert rt h alerts w = Inr w'"
    using sendSlackAlert_returns [of rt h alerts w] by blast
  have rejected: "axios_post h (composeMessage rt h alerts) = Inl msg \<longrightarrow>
        sendSlackAlert rt h alerts w =
          Inr (say [Err (''Error sending Slack message: '' @ msg)]
                 (w\<lparr>posted := posted w @ [composeMessage rt h alerts]\<rparr>))"
    by (simp add: sendSlackAlert_rejected)
  have keyed: "last_alert_file w' = last_alert_file w
          \<and> getLastAlertTime rt h2 w' = getLastAlertTime rt h2 w
          \<and> cooldownElapsed rt h2 w' = cooldownElapsed rt h2 w"
    if "axios_post h (composeMessage rt h alerts) = Inl msg \<and> sendSlackAlert rt h alerts w = Inr w'"
    for w'
  proof -
    have "last_alert_file w' = last_alert_file w"
      using that sendSlackAlert_file [of rt h alerts w w'] by simp
    then show ?thesis
      using getLastAlertTime_reads_file [of w' w rt h2] cooldownElapsed_reads_file [of w' w rt h2]
      by simp
  qed
  have only_after: "\<exists>u. axios_post h (composeMessage rt h alerts) = Inr u"
    if "sendSlackAlert rt h alerts w = Inr w' \<and> last_alert_file w' \<noteq> last_alert_file w" for w'
    using that sendSlackAlert_file [of rt h alerts w w']
    by (cases "axios_post h (composeMessage rt h alerts)") auto
  have written: "\<exists>w'. sendSlackAlert rt h alerts w = Inr w'
             \<and> last_alert_file w' = Some (show_int (write_now h))"
    if "axios_post h (composeMessage rt h alerts) = Inr u \<and> writeFileSync_answer h = Written" for u
    using that by (simp add: sendSlackAlert_resolved setLastAlertTime_eq)
  have cycle: "\<exists>w'. checkSystemHealth rt h w = Inr w'"
    using checkSystemHealth_returns [of rt h w] by blast
  show ?thesis
    using returns rejected keyed only_after written cycle runCycles_returns [of rt hs w]
    by blast
qed

theorem failed_send_keeps_cooldown_witness:
  "axios_post ((exampleHost ''75.0'' ''95.0'' ''25.0'' 1700002100000)\<lparr>axios_post := \<lambda>m. Inl ''Slack API error''\<rparr>)
      (composeMessage exampleRuntime
         ((exampleHost ''75.0'' ''95.0'' ''25.0'' 1700002100000)\<lparr>axios_post := \<lambda>m. Inl ''Slack API error''\<rparr>) exampleAlerts)
     = Inl ''Slack API error''
   \<and> sendSlackAlert exampleRuntime
        ((exampleHost ''75.0'' ''95.0'' ''25.0'' 1700002100000)\<lparr>axios_post := \<lambda>m. Inl ''Slack API error''\<rparr>)
        exampleAlerts (exampleWorld None (Some ''1700000000000''))
      = Inr \<lparr>cpuOverThresholdSince = None, last_alert_file = Some ''1700000000000'',
            console = [Err ''Error sending Slack message: Slack API error''],
            posted = [\<lparr>m_text = [CHR 0xF0, CHR 0x9F, CHR 0x9A, CHR 0xA8]
                         @ '' *System Health Alert on web-1*\<newline>'' @ [CHR 0xE2, CHR 0x8F, CHR 0xB0]
                         @ '' Uptime: up 2 days, 3 hours'',
                       m_attachments = [\<lparr>at_color = ''danger'', at_title = ''Test Alert'',
                         at_text = ''Test value'', at_fields = [], at_ts = 1700002100\<rparr>]\<rparr>]\<rparr>
   \<and> (\<exists>w'. sendSlackAlert exampleRuntime (exampleHost ''75.0'' ''95.0'' ''25.0'' 1700002100000)
              exampleAlerts (exampleWorld None (Some ''1700000000000'')) = Inr w'
         \<and> last_alert_file w' = Some ''1700002100000'')"
proof -
  have r: "axios_post ((exampleHost ''75.0'' ''95.0'' ''25.0'' 1700002100000)\<lparr>axios_post := \<lambda>m. Inl ''Slack API error''\<rparr>)
      (composeMessage exampleRuntime
         ((exampleHost ''75.0'' ''95.0'' ''25.0'' 1700002100000)\<lparr>axios_post := \<lambda>m. Inl ''Slack API error''\<rparr>) exampleAlerts)
     = Inl ''Slack API error''"
    by simp
  have ok: "axios_post (exampleHost ''75.0'' ''95.0'' ''25.0'' 1700002100000)
      (composeMessage exampleRuntime (exampleHost ''75.0'' ''95.0'' ''25.0'' 1700002100000) exampleAlerts) = Inr ()
     \<and> writeFileSync_answer (exampleHost ''75.0'' ''95.0'' ''25.0'' 1700002100000) = Written"
    by (simp add: exampleHost_def)
  have t: "show_int (write_now (exampleHost ''75.0'' ''95.0'' ''25.0'' 1700002100000)) = ''1700002100000''"
    by (simp add: exampleHost_def eval_text)
  note f = failed_send_keeps_cooldown [of exampleRuntime
      "(exampleHost ''75.0'' ''95.0'' ''25.0'' 1700002100000)\<lparr>axios_post := \<lambda>m. Inl ''Slack API error''\<rparr>"
      exampleAlerts "exampleWorld None (Some ''1700000000000'')" "''Slack API error''"]
  note g = failed_send_keeps_cooldown [of exampleRuntime
      "exampleHost ''75.0'' ''95.0'' ''25.0'' 1700002100000"
      exampleAlerts "exampleWorld None (Some ''1700000000000'')"]
  from f r have "sendSlackAlert exampleRuntime
        ((exampleHost ''75.0'' ''95.0'' ''25.0'' 1700002100000)\<lparr>axios_post := \<lambda>m. Inl ''Slack API error''\<rparr>)
        exampleAlerts (exampleWorld None (Some ''1700000000000''))
      = Inr (say [Err (''Error sending Slack message: '' @ ''Slack API error'')]
          ((exampleWorld None (Some ''1700000000000''))\<lparr>posted := posted (exampleWorld None (Some ''1700000000000''))
             @ [composeMessage exampleRuntime
         ((exampleHost ''75.0'' ''95.0'' ''25.0'' 1700002100000)\<lparr>axios_post := \<lambda>m. Inl ''Slack API error''\<rparr>) exampleAlerts]\<rparr>))"
    by blast
  then have a: "sendSlackAlert exampleRuntime
        ((exampleHost ''75.0'' ''95.0'' ''25.0'' 1700002100000)\<lparr>axios_post := \<lambda>m. Inl ''Slack API error''\<rparr>)
        exampleAlerts (exampleWorld None (Some ''1700000000000''))
      = Inr \<lparr>cpuOverThresholdSince = None, last_alert_file = Some ''1700000000000'',
            console = [Err ''Error sending Slack message: Slack API error''],
            posted = [\<lparr>m_text = [CHR 0xF0, CHR 0x9F, CHR 0x9A, CHR 0xA8]
                         @ '' *System Health Alert on web-1*\<newline>'' @ [CHR 0xE2, CHR 0x8F, CHR 0xB0]
                         @ '' Uptime: up 2 days, 3 hours'',
                       m_attachments = [\<lparr>at_color = ''danger'', at_title = ''Test Alert'',
                         at_text = ''Test value'', at_fields = [], at_ts = 1700002100\<rparr>]\<rparr>]\<rparr>"
    by (simp add: say_def exampleWorld_def composeMessage_def messageText_def exampleHost_def
        exampleAlerts_def attachmentOf_def enumerate_eq_zip)
  from g ok t have b: "\<exists>w'. sendSlackAlert exampleRuntime (exampleHost ''75.0'' ''95.0'' ''25.0'' 1700002100000)
              exampleAlerts (exampleWorld None (Some ''1700000000000'')) = Inr w'
         \<and> last_alert_file w' = Some ''1700002100000''"
    by (metis (full_types))
  from r a b show ?thesis by blast
qed

section \<open>The persisted time: C8\<close>

lemma getLastAlertTime_unparsable:
  assumes "last_alert_file w = Some written" and "readFileSync_error h = None"
    and "parseInt rt written = NaN"
  shows "getLastAlertTime rt h w = (NaN, [])"
  using assms by (simp add: getLastAlertTime_def)

lemma cycle_unparsable:
  assumes "last_alert_file w = Some written" and "readFileSync_error h = None"
    and "parseInt rt written = NaN"
  shows "checkSystemHealth rt h w =
     Inr (say [Out (if cycleAlerts rt h w = [] then ''System health OK.''
                    else ''Alert(s) detected, but cooldown still active.'')]
            (snd (evaluateThresholds rt h w)))"
proof -
  let ?e = "snd (evaluateThresholds rt h w)"
  have "last_alert_file ?e = Some written"
    using assms(1) by (simp add: evaluator_frame)
  then have rd: "getLastAlertTime rt h ?e = (NaN, [])"
    using assms(2,3) by (rule getLastAlertTime_unparsable)
  have "cooldownGate rt h alerts ?e =
     Inr (say [Out (if alerts = [] then ''System health OK.''
                    else ''Alert(s) detected, but cooldown still active.'')] ?e)" for alerts
    by (simp add: cooldownGate_def rd say_def)
  then show ?thesis by (simp only: checkSystemHealth_eq)
qed

lemma run_unparsable:
  assumes "last_alert_file w = Some written" and "parseInt rt written = NaN"
    and "\<forall>h \<in> set hs. readFileSync_error h = None"
  shows "\<exists>w'. runCycles rt hs w = Inr w' \<and> posted w' = posted w \<and> last_alert_file w' = Some written"
  using assms(1,3)
proof (induction hs arbitrary: w)
  case Nil
  then show ?case by simp
next
  case (Cons h hs)
  let ?w1 = "say [Out (if cycleAlerts rt h w = [] then ''System health OK.''
                    else ''Alert(s) detected, but cooldown still active.'')]
            (snd (evaluateThresholds rt h w))"
  have r: "readFileSync_error h = None" using Cons.prems(2) by simp
  have c: "checkSystemHealth rt h w = Inr ?w1"
    using Cons.prems(1) r assms(2) by (rule cycle_unparsable)
  have f: "last_alert_file ?w1 = Some written" and p: "posted ?w1 = posted w"
    using Cons.prems(1) by (simp_all add: evaluator_frame)
  have "\<forall>h \<in> set hs. readFileSync_error h = None" using Cons.prems(2) by simp
  from Cons.IH [OF f this] p c show ?case by simp
qed

lemma cycle_write_throws_after_open:
  assumes "cycleAlerts rt h w \<noteq> []" and "cooldownElapsed rt h w"
    and "axios_post h (composeMessage rt h (cycleAlerts rt h w)) = Inr ()"
    and "writeFileSync_answer h = ThrowsAfterOpen msg n"
  shows "\<exists>w'. checkSystemHealth rt h w = Inr w'
    \<and> posted w' = posted w @ [composeMessage rt h (cycleAlerts rt h w)]
    \<and> last_alert_file w' = Some (take n (show_int (write_now h)))"
proof -
  let ?e = "snd (evaluateThresholds rt h w)"
  have "last_alert_file ?e = last_alert_file w" by (rule evaluator_frame)
  then have "cooldownElapsed rt h ?e = cooldownElapsed rt h w"
    by (rule cooldownElapsed_reads_file)
  then have "cooldownElapsed rt h ?e" using assms(2) by simp
  with assms(1) have "cooldownGate rt h (cycleAlerts rt h w) ?e =
      sendSlackAlert rt h (cycleAlerts rt h w) (say (snd (getLastAlertTime rt h ?e)) ?e)"
    by (rule cooldownGate_dispatch)
  then show ?thesis
    using assms(4)
    by (simp add: checkSystemHealth_eq sendSlackAlert_resolved [OF assms(3)] setLastAlertTime_eq
        evaluator_frame)
qed

text \<open>
  C8. \<^verbatim>\<open>getLastAlertTime\<close> returns 0 when the file does not exist and when reading it
  throws (then the error is logged), and with the time 0 the cooldown test is that of
  a monitor that never alerted: it passes as soon as the clock itself is past the
  cooldown. A file that is read gives what \<^verbatim>\<open>parseInt\<close> makes of its text, and for a
  text that does not parse this is \<open>NaN\<close>, not 0: the cooldown test is then false at
  every time, the cycle hands nothing to the transport and leaves the file as it is,
  and so does every run of cycles that read the file. \<^verbatim>\<open>setLastAlertTime\<close> returns in
  every case and logs the error of a write that throws; the file is then as before
  when the open failed, and holds what was written of the text when a later step
  failed: with nothing written an empty file, whose text does not parse. A cycle
  that sends its message and whose write fails so leaves that file behind.
\<close>

theorem unparsable_last_alert_time_blocks_alerts:
  "(last_alert_file w = None \<longrightarrow> getLastAlertTime rt h w = (Num 0, []))
   \<and> (last_alert_file w \<noteq> None \<and> readFileSync_error h = Some msg \<longrightarrow>
        getLastAlertTime rt h w = (Num 0, [Err (''Error reading last alert time: '' @ msg)]))
   \<and> (last_alert_file w = Some written \<and> readFileSync_error h = None \<longrightarrow>
        getLastAlertTime rt h w = (parseInt rt written, []))
   \<and> (fst (getLastAlertTime rt h w) = Num 0 \<longrightarrow>
        (cooldownElapsed rt h w \<longleftrightarrow> ALERT_COOLDOWN \<le> date_now h))
   \<and> (last_alert_file w = Some written \<and> readFileSync_error h = None \<and> parseInt rt written = NaN \<longrightarrow>
        getLastAlertTime rt h w = (NaN, [])
        \<and> \<not> cooldownElapsed rt h w
        \<and> checkSystemHealth rt h w =
            Inr (say [Out (if cycleAlerts rt h w = [] then ''System health OK.''
                           else ''Alert(s) detected, but cooldown still active.'')]
                   (snd (evaluateThresholds rt h w)))
        \<and> (\<exists>w'. checkSystemHealth rt h w = Inr w' \<and> posted w' = posted w
              \<and> last_alert_file w' = Some written))
   \<and> (last_alert_file w = Some written \<and> parseInt rt written = NaN
        \<and> (\<forall>h' \<in> set hs. readFileSync_error h' = None) \<longrightarrow>
        (\<exists>w'. runCycles rt hs w = Inr w' \<and> posted w' = posted w \<and> last_alert_file w' = Some written))
   \<and> (writeFileSync_answer h = Written \<longrightarrow>
        setLastAlertTime h w = Inr (w\<lparr>last_alert_file := Some (show_int (write_now h))\<rparr>))
   \<and> (writeFileSync_answer h = ThrowsAtOpen msg \<longrightarrow>
        setLastAlertTime h w = Inr (say [Err (''Error writing last alert time: '' @ msg)] w))
   \<and> (writeFileSync_answer h = ThrowsAfterOpen msg n \<longrightarrow>
        setLastAlertTime h w =
          Inr (say [Err (''Error writing last alert time: '' @ msg)]
                 (w\<lparr>last_alert_file := Some (take n (show_int (write_now h)))\<rparr>)))
   \<and> (\<exists>w'. setLastAlertTime h w = Inr w')
   \<and> (cycleAlerts rt h w \<noteq> [] \<and> cooldownElapsed rt h w
        \<and> axios_post h (composeMessage rt h (cycleAlerts rt h w)) = Inr ()
        \<and> writeFileSync_answer h = ThrowsAfterOpen msg n \<longrightarrow>
        (\<exists>w'. checkSystemHealth rt h w = Inr w'
           \<and> posted w' = posted w @ [composeMessage rt h (cycleAlerts rt h w)]
           \<and> last_alert_file w' = Some (take n (show_int (write_now h)))))"
proof -
  have missing: "last_alert_file w = None \<longrightarrow> getLastAlertTime rt h w = (Num 0, [])"
    by (simp add: getLastAlertTime_def)
  have logged: "last_alert_file w \<noteq> None \<and> readFileSync_error h = Some msg \<longrightarrow>
        getLastAlertTime rt h w = (Num 0, [Err (''Error reading last alert time: '' @ msg)])"
    by (auto simp: getLastAlertTime_def split: option.split)
  have readable: "last_alert_file w = Some written \<and> readFileSync_error h = None \<longrightarrow>
        getLastAlertTime rt h w = (parseInt rt written, [])"
    by (simp add: getLastAlertTime_def)
  have never: "fst (getLastAlertTime rt h w) = Num 0 \<longrightarrow>
        (cooldownElapsed rt h w \<longleftrightarrow> ALERT_COOLDOWN \<le> date_now h)"
  proof
    assume "fst (getLastAlertTime rt h w) = Num 0"
    then have "cooldownElapsed rt h w \<longleftrightarrow> (of_int ALERT_COOLDOWN :: rat) \<le> of_int (date_now h)"
      by (simp add: cooldownElapsed_def)
    then show "cooldownElapsed rt h w \<longleftrightarrow> ALERT_COOLDOWN \<le> date_now h"
      by (simp only: of_int_le_iff)
  qed
  have unparsable: "last_alert_file w = Some written \<and> readFileSync_error h = None
        \<and> parseInt rt written = NaN \<longrightarrow>
        getLastAlertTime rt h w = (NaN, [])
        \<and> \<not> cooldownElapsed rt h w
        \<and> checkSystemHealth rt h w =
            Inr (say [Out (if cycleAlerts rt h w = [] then ''System health OK.''
                           else ''Alert(s) detected, but cooldown still active.'')]
                   (snd (evaluateThresholds rt h w)))
        \<and> (\<exists>w'. checkSystemHealth rt h w = Inr w' \<and> posted w' = posted w
              \<and> last_alert_file w' = Some written)"
  proof (intro impI)
    assume a: "last_alert_file w = Some written \<and> readFileSync_error h = None
        \<and> parseInt rt written = NaN"
    then have fl: "last_alert_file w = Some written" and rd: "readFileSync_error h = None"
      and un: "parseInt rt written = NaN"
      by simp_all
    have g: "getLastAlertTime rt h w = (NaN, [])"
      using fl rd un by (rule getLastAlertTime_unparsable)
    then have e: "\<not> cooldownElapsed rt h w" by (simp add: cooldownElapsed_nan)
    have c: "checkSystemHealth rt h w =
            Inr (say [Out (if cycleAlerts rt h w = [] then ''System health OK.''
                           else ''Alert(s) detected, but cooldown still active.'')]
                   (snd (evaluateThresholds rt h w)))"
      using fl rd un by (rule cycle_unparsable)
    have "\<exists>w'. checkSystemHealth rt h w = Inr w' \<and> posted w' = posted w
              \<and> last_alert_file w' = Some written"
      using fl by (simp add: c evaluator_frame)
    with g e c show "getLastAlertTime rt h w = (NaN, [])
        \<and> \<not> cooldownElapsed rt h w
        \<and> checkSystemHealth rt h w =
            Inr (say [Out (if cycleAlerts rt h w = [] then ''System health OK.''
                           else ''Alert(s) detected, but cooldown still active.'')]
                   (snd (evaluateThresholds rt h w)))
        \<and> (\<exists>w'. checkSystemHealth rt h w = Inr w' \<and> posted w' = posted w
              \<and> last_alert_file w' = Some written)"
      by (intro conjI)
  qed
  have runs: "last_alert_file w = Some written \<and> parseInt rt written = NaN
        \<and> (\<forall>h' \<in> set hs. readFileSync_error h' = None) \<longrightarrow>
        (\<exists>w'. runCycles rt hs w = Inr w' \<and> posted w' = posted w \<and> last_alert_file w' = Some written)"
    using run_unparsable [of w written rt hs] by blast
  have written: "writeFileSync_answer h = Written \<longrightarrow>
        setLastAlertTime h w = Inr (w\<lparr>last_alert_file := Some (show_int (write_now h))\<rparr>)"
    by (simp add: setLastAlertTime_eq)
  have at_open: "writeFileSync_answer h = ThrowsAtOpen msg \<longrightarrow>
        setLastAlertTime h w = Inr (say [Err (''Error writing last alert time: '' @ msg)] w)"
    by (simp add: setLastAlertTime_eq)
  have after_open: "writeFileSync_answer h = ThrowsAfterOpen msg n \<longrightarrow>
        setLastAlertTime h w =
          Inr (say [Err (''Error writing last alert time: '' @ msg)]
                 (w\<lparr>last_alert_file := Some (take n (show_int (write_now h)))\<rparr>))"
    by (simp add: setLastAlertTime_eq)
  have returns: "\<exists>w'. setLastAlertTime h w = Inr w'"
    by (simp add: setLastAlertTime_eq)
  have left_behind: "cycleAlerts rt h w \<noteq> [] \<and> cooldownElapsed rt h w
        \<and> axios_post h (composeMessage rt h (cycleAlerts rt h w)) = Inr ()
        \<and> writeFileSync_answer h = ThrowsAfterOpen msg n \<longrightarrow>
        (\<exists>w'. checkSystemHealth rt h w = Inr w'
           \<and> posted w' = posted w @ [composeMessage rt h (cycleAlerts rt h w)]
           \<and> last_alert_file w' = Some (take n (show_int (write_now h))))"
    using cycle_write_throws_after_open [of rt h w msg n] by blast
  show ?thesis
    by (intro conjI) (rule missing, rule logged, rule readable, rule never, rule unparsable,
        rule runs, rule written, rule at_open, rule after_open, rule returns, rule left_behind)
qed

lemma example_evaluator_world:
  "snd (evaluateThresholds exampleRuntime (exampleHost ''75.0'' mem swap now) (exampleWorld None fl))
     = exampleWorld None fl"
proof -
  let ?h = "exampleHost ''75.0'' mem swap now"
  have c: "getCpuUsage exampleRuntime ?h = (Some (Num 75), [])"
    by (rule provider_present) (simp add: example_cpuSample [unfolded cpuSample_def])
  have m: "snd (getMemUsage exampleRuntime ?h) = []" "snd (getSwapUsage exampleRuntime ?h) = []"
    by (simp_all add: provider_parses exampleHost_def)
  have b: "cpuBranch exampleRuntime ?h (Some (Num 75)) (date_now ?h) None = ([], None, [])"
    by (rule cpuBranch_not_over) (simp add: atOrAbove_def CPU_THRESHOLD_def)
  have s: "cpuOverThresholdSince (exampleWorld None fl) = None"
    by (simp add: exampleWorld_def)
  show ?thesis
    by (simp add: evaluateThresholds_def case_prod_beta Let_def c m b s say_def)
qed

theorem unparsable_last_alert_time_blocks_alerts_witness:
  "setLastAlertTime ((exampleHost ''75.0'' ''95.0'' ''25.0'' 1700002100000)
        \<lparr>writeFileSync_answer := ThrowsAfterOpen ''ENOSPC: no space left on device'' 0\<rparr>)
        (exampleWorld None (Some ''1700000000000''))
      = Inr \<lparr>cpuOverThresholdSince = None, last_alert_file = Some [],
            console = [Err ''Error writing last alert time: ENOSPC: no space left on device''],
            posted = []\<rparr>
   \<and> last_alert_file (exampleWorld None (Some [])) = Some []
   \<and> readFileSync_error (exampleHost ''75.0'' ''95.0'' ''25.0'' 1700002100000) = None
   \<and> parseInt exampleRuntime [] = NaN
   \<and> getLastAlertTime exampleRuntime (exampleHost ''75.0'' ''95.0'' ''25.0'' 1700002100000)
        (exampleWorld None (Some [])) = (NaN, [])
   \<and> cycleAlerts exampleRuntime (exampleHost ''75.0'' ''95.0'' ''25.0'' 1700002100000)
        (exampleWorld None (Some [])) \<noteq> []
   \<and> \<not> cooldownElapsed exampleRuntime (exampleHost ''75.0'' ''95.0'' ''25.0'' 1700002100000)
        (exampleWorld None (Some []))
   \<and> checkSystemHealth exampleRuntime (exampleHost ''75.0'' ''95.0'' ''25.0'' 1700002100000)
        (exampleWorld None (Some []))
      = Inr \<lparr>cpuOverThresholdSince = None, last_alert_file = Some [],
            console = [Out ''Alert(s) detected, but cooldown still active.''],
            posted = []\<rparr>
   \<and> (\<exists>w'. runCycles exampleRuntime
              [exampleHost ''75.0'' ''95.0'' ''25.0'' 1700002100000,
               exampleHost ''75.0'' ''95.0'' ''25.0'' 1700004200000,
               exampleHost ''75.0'' ''95.0'' ''25.0'' 1700090000000]
              (exampleWorld None (Some [])) = Inr w'
         \<and> posted w' = [] \<and> last_alert_file w' = Some [])
   \<and> getLastAlertTime exampleRuntime (exampleHost ''75.0'' ''95.0'' ''25.0'' 1700002100000)
        (exampleWorld None None) = (Num 0, [])
   \<and> cooldownElapsed exampleRuntime (exampleHost ''75.0'' ''95.0'' ''25.0'' 1700002100000)
        (exampleWorld None None)
   \<and> (\<exists>w'. runCycles exampleRuntime
              [(exampleHost ''75.0'' ''95.0'' ''25.0'' 1700002100000)
                 \<lparr>writeFileSync_answer := ThrowsAfterOpen ''ENOSPC: no space left on device'' 0\<rparr>,
               exampleHost ''75.0'' ''95.0'' ''25.0'' 1700004200000,
               exampleHost ''75.0'' ''95.0'' ''25.0'' 1700090000000]
              (exampleWorld None (Some ''1700000000000'')) = Inr w'
         \<and> length (posted w') = 1 \<and> last_alert_file w' = Some [])"
proof -
  let ?h = "exampleHost ''75.0'' ''95.0'' ''25.0'' 1700002100000"
  let ?hw = "?h\<lparr>writeFileSync_answer := ThrowsAfterOpen ''ENOSPC: no space left on device'' 0\<rparr>"
  let ?hs = "[?h, exampleHost ''75.0'' ''95.0'' ''25.0'' 1700004200000,
              exampleHost ''75.0'' ''95.0'' ''25.0'' 1700090000000]"
  let ?w0 = "exampleWorld None (Some ''1700000000000'')"
  let ?we = "exampleWorld None (Some [])"
  let ?wn = "exampleWorld None None"
  have fl: "last_alert_file ?we = Some []" "last_alert_file ?wn = None" "posted ?we = []"
    by (simp_all add: exampleWorld_def)
  have rd: "readFileSync_error ?h = None"
    by (simp add: exampleHost_def)
  have rds: "\<forall>h' \<in> set ?hs. readFileSync_error h' = None"
    by (simp add: exampleHost_def)
  have un: "parseInt exampleRuntime [] = NaN"
    by (simp add: exampleRuntime_def)
  have wr: "writeFileSync_answer ?hw = ThrowsAfterOpen ''ENOSPC: no space left on device'' 0"
    by simp
  have now: "ALERT_COOLDOWN \<le> date_now ?h"
    by (simp add: exampleHost_def ALERT_COOLDOWN_def)
  have al: "cycleAlerts exampleRuntime ?h ?we \<noteq> []"
    by (rule example_memory_alert)
  note a = unparsable_last_alert_time_blocks_alerts [of ?we exampleRuntime ?h _ "[]" ?hs]
  note b = unparsable_last_alert_time_blocks_alerts [of ?wn exampleRuntime ?h]
  note c = unparsable_last_alert_time_blocks_alerts [of ?w0 exampleRuntime ?hw
      "''ENOSPC: no space left on device''" _ _ 0]
  from c wr have "setLastAlertTime ?hw ?w0
      = Inr (say [Err (''Error writing last alert time: '' @ ''ENOSPC: no space left on device'')]
          (?w0\<lparr>last_alert_file := Some (take 0 (show_int (write_now ?hw)))\<rparr>))"
    by blast
  then have s: "setLastAlertTime ?hw ?w0
      = Inr \<lparr>cpuOverThresholdSince = None, last_alert_file = Some [],
            console = [Err ''Error writing last alert time: ENOSPC: no space left on device''],
            posted = []\<rparr>"
    by (simp add: say_def exampleWorld_def)
  from a fl rd un have g: "getLastAlertTime exampleRuntime ?h ?we = (NaN, [])"
    and e: "\<not> cooldownElapsed exampleRuntime ?h ?we"
    and k: "checkSystemHealth exampleRuntime ?h ?we =
            Inr (say [Out (if cycleAlerts exampleRuntime ?h ?we = [] then ''System health OK.''
                           else ''Alert(s) detected, but cooldown still active.'')]
                   (snd (evaluateThresholds exampleRuntime ?h ?we)))"
    by blast+
  from k al have k': "checkSystemHealth exampleRuntime ?h ?we
      = Inr \<lparr>cpuOverThresholdSince = None, last_alert_file = Some [],
            console = [Out ''Alert(s) detected, but cooldown still active.''],
            posted = []\<rparr>"
    by (simp add: example_evaluator_world) (simp add: say_def exampleWorld_def)
  from a fl un rds have r: "\<exists>w'. runCycles exampleRuntime ?hs ?we = Inr w'
         \<and> posted w' = [] \<and> last_alert_file w' = Some []"
    by (simp del: runCycles.simps)
  from b fl have m: "getLastAlertTime exampleRuntime ?h ?wn = (Num 0, [])"
    by blast
  from b m now have n: "cooldownElapsed exampleRuntime ?h ?wn"
    by simp
  have p0: "posted ?w0 = []"
    by (simp add: exampleWorld_def)
  have "memSample exampleRuntime ?hw = Some (Num 95)"
    by (simp add: memSample_def getMemUsage_def eval_example trim_def is_js_space_def)
  then have "atOrAbove (memSample exampleRuntime ?hw) MEM_THRESHOLD"
    by (simp add: atOrAbove_def MEM_THRESHOLD_def)
  then have "titled memTitle (cycleAlerts exampleRuntime ?hw ?w0) \<noteq> []"
    using memBranch_over [of "memSample exampleRuntime ?hw" exampleRuntime ?hw]
    by (auto simp: cycle_mem_alerts)
  then have al0: "cycleAlerts exampleRuntime ?hw ?w0 \<noteq> []"
    by (rule titled_nonempty)
  have e0: "cooldownElapsed exampleRuntime ?hw ?w0"
    by (simp add: cooldownElapsed_def getLastAlertTime_def exampleRuntime_def exampleHost_def
        exampleWorld_def ALERT_COOLDOWN_def)
  have ax: "axios_post ?hw (composeMessage exampleRuntime ?hw (cycleAlerts exampleRuntime ?hw ?w0)) = Inr ()"
    by (simp add: exampleHost_def)
  note lb = c [THEN conjunct2, THEN conjunct2, THEN conjunct2, THEN conjunct2, THEN conjunct2,
      THEN conjunct2, THEN conjunct2, THEN conjunct2, THEN conjunct2, THEN conjunct2]
  from lb al0 e0 ax wr obtain w1 where w1: "checkSystemHealth exampleRuntime ?hw ?w0 = Inr w1"
    "posted w1 = posted ?w0 @ [composeMessage exampleRuntime ?hw (cycleAlerts exampleRuntime ?hw ?w0)]"
    "last_alert_file w1 = Some (take 0 (show_int (write_now ?hw)))"
    by blast
  have f1: "last_alert_file w1 = Some []"
    using w1(3) by simp
  have rds': "\<forall>h' \<in> set (tl ?hs). readFileSync_error h' = None"
    by (simp add: exampleHost_def)
  from unparsable_last_alert_time_blocks_alerts [of w1 exampleRuntime ?h _ "[]" "tl ?hs"] f1 un rds'
  have "\<exists>w'. runCycles exampleRuntime (tl ?hs) w1 = Inr w' \<and> posted w' = posted w1
         \<and> last_alert_file w' = Some []"
    by (simp del: runCycles.simps)
  then have r0: "\<exists>w'. runCycles exampleRuntime (?hw # tl ?hs) ?w0 = Inr w'
         \<and> length (posted w') = 1 \<and> last_alert_file w' = Some []"
    using w1(1,2) p0 by auto
  from s fl(1) rd un g al e k' r m n r0 show ?thesis by simp
qed

section \<open>The decimals displayed: C9\<close>

lemma example_cycle_bodies:
  "map a_value (cycleAlerts exampleRuntime (exampleHost ''95.0'' ''95.0'' ''75.0'' 1700000360000)
      (exampleWorld (Some 1700000000000) None)) =
   [''*Current CPU Usage: 95.0%*\<newline>*Threshold: 90%*\<newline>*Duration: 6.0 minutes*\<newline>\<newline>*Top CPU Processes:*\<newline>1. */usr/bin/very/long/path/to/a/very/long/command/...*\<newline>   PID: 1234 | User: user1 | CPU: 25.5% | RSS: 89012'',
    ''*Current Memory Usage: 95.0%*\<newline>*Threshold: 90%*\<newline>*Memory Breakdown:*\<newline>'' @ bullet @ '' Total: 15Gi\<newline>'' @ bullet @ '' Used: 8.2Gi\<newline>'' @ bullet @ '' Available: 6.8Gi\<newline>'' @ bullet @ '' Cache: 4.7Gi\<newline>\<newline>*Top Memory Processes:*\<newline>1. */usr/bin/very/long/path/to/a/very/long/command/...*\<newline>   PID: 1234 | User: user1 | Memory: 10.25% | RSS: 89012'',
    ''*Current Swap Usage: 75.0%*\<newline>*Threshold: 50%*'']"
  by (simp add: cycleAlerts_def evaluateThresholds_def getCpuUsage_def getMemUsage_def getSwapUsage_def
      cpuBranch_def memBranch_def swapBranch_def cpuAlert_def trim_def is_js_space_def
      CPU_THRESHOLD_def MEM_THRESHOLD_def SWAP_THRESHOLD_def CPU_OVER_THRESHOLD_DURATION_def
      eval_example eval_text eval_format)

lemma thresholds_shown:
  "show_int CPU_THRESHOLD = ''90''" "show_int MEM_THRESHOLD = ''90''" "show_int SWAP_THRESHOLD = ''50''"
  by (simp_all add: CPU_THRESHOLD_def MEM_THRESHOLD_def SWAP_THRESHOLD_def eval_text)

lemma sample_oneDecimal:
  "atOrAbove (Some (Num q)) T \<Longrightarrow> 0 \<le> T \<Longrightarrow> q < 10 ^ 21 \<Longrightarrow> oneDecimal (toFixed1 rt (Num q))"
proof -
  assume "atOrAbove (Some (Num q)) T" "0 \<le> T" "q < 10 ^ 21"
  then have "(0 :: rat) \<le> of_int T" "of_int T \<le> q" by (simp_all add: atOrAbove_def)
  then have "\<bar>q\<bar> = q" by simp
  then show ?thesis using \<open>q < 10 ^ 21\<close> by (simp add: toFixed1_oneDecimal)
qed

text \<open>
  C9, as the code has it. In the bodies of the descriptors the current CPU, memory and
  swap values and the elapsed CPU minutes (numbers below \<open>10^21\<close>) are written by
  \<^verbatim>\<open>toFixed(1)\<close>, with exactly one decimal place. The thresholds are written as the
  plain integers 90, 90 and 50, which have no decimal place.
\<close>

theorem values_one_decimal_thresholds_plain:
  "(atOrAbove (Some (Num c)) CPU_THRESHOLD \<and> c < 10 ^ 21
      \<and> minutes rt (now - since) = Num e \<and> \<bar>e\<bar> < 10 ^ 21 \<longrightarrow>
      a_value (cpuAlert rt h (Num c) now since) =
        ''*Current CPU Usage: '' @ toFixed1 rt (Num c) @ ''%*\<newline>*Threshold: 90%*\<newline>*Duration: ''
          @ toFixed1 rt (minutes rt (now - since)) @ '' minutes*\<newline>\<newline>*Top CPU Processes:*\<newline>''
          @ formatProcessList rt (Some (getTopCpuProcesses h 8)) ''cpu''
      \<and> oneDecimal (toFixed1 rt (Num c))
      \<and> oneDecimal (toFixed1 rt (minutes rt (now - since))))
   \<and> (atOrAbove (Some (Num m)) MEM_THRESHOLD \<and> m < 10 ^ 21 \<longrightarrow>
      map a_value (memBranch rt h (Some (Num m))) =
        [''*Current Memory Usage: '' @ toFixed1 rt (Num m) @ ''%*\<newline>*Threshold: 90%*''
          @ (case getDetailedMemoryInfo h of
               Some d \<Rightarrow> ''\<newline>*Memory Breakdown:*\<newline>'' @ bullet @ '' Total: '' @ mi_total d
                  @ ''\<newline>'' @ bullet @ '' Used: '' @ mi_used d
                  @ ''\<newline>'' @ bullet @ '' Available: '' @ mi_available d
                  @ ''\<newline>'' @ bullet @ '' Cache: '' @ mi_cache d
             | None \<Rightarrow> [])
          @ ''\<newline>\<newline>*Top Memory Processes:*\<newline>''
          @ formatProcessList rt (Some (getTopMemoryProcesses h 8)) ''memory'']
      \<and> oneDecimal (toFixed1 rt (Num m)))
   \<and> (atOrAbove (Some (Num s)) SWAP_THRESHOLD \<and> s < 10 ^ 21 \<longrightarrow>
      map a_value (swapBranch rt h (Some (Num s))) =
        [''*Current Swap Usage: '' @ toFixed1 rt (Num s) @ ''%*\<newline>*Threshold: 50%*''
          @ (case getDetailedSwapInfo h of
               Some d \<Rightarrow> ''\<newline>*Swap Breakdown:*\<newline>'' @ bullet @ '' Total: '' @ sw_total d
                  @ ''\<newline>'' @ bullet @ '' Used: '' @ sw_used d
                  @ ''\<newline>'' @ bullet @ '' Free: '' @ sw_free d
             | None \<Rightarrow> [])]
      \<and> oneDecimal (toFixed1 rt (Num s)))
   \<and> \<not> oneDecimal ''90'' \<and> \<not> oneDecimal ''50''"
proof -
  have cpu: "a_value (cpuAlert rt h (Num c) now since) =
        ''*Current CPU Usage: '' @ toFixed1 rt (Num c) @ ''%*\<newline>*Threshold: 90%*\<newline>*Duration: ''
          @ toFixed1 rt (minutes rt (now - since)) @ '' minutes*\<newline>\<newline>*Top CPU Processes:*\<newline>''
          @ formatProcessList rt (Some (getTopCpuProcesses h 8)) ''cpu''
      \<and> oneDecimal (toFixed1 rt (Num c))
      \<and> oneDecimal (toFixed1 rt (minutes rt (now - since)))"
    if "atOrAbove (Some (Num c)) CPU_THRESHOLD \<and> c < 10 ^ 21
      \<and> minutes rt (now - since) = Num e \<and> \<bar>e\<bar> < 10 ^ 21"
  proof -
    have "oneDecimal (toFixed1 rt (Num c))"
      using that by (simp add: sample_oneDecimal [of c CPU_THRESHOLD] CPU_THRESHOLD_def)
    moreover have "oneDecimal (toFixed1 rt (minutes rt (now - since)))"
      using that minutes_oneDecimal [of rt "now - since" e] by blast
    ultimately show ?thesis by (simp add: cpuAlert_def thresholds_shown)
  qed
  have mem: "map a_value (memBranch rt h (Some (Num m))) =
        [''*Current Memory Usage: '' @ toFixed1 rt (Num m) @ ''%*\<newline>*Threshold: 90%*''
          @ (case getDetailedMemoryInfo h of
               Some d \<Rightarrow> ''\<newline>*Memory Breakdown:*\<newline>'' @ bullet @ '' Total: '' @ mi_total d
                  @ ''\<newline>'' @ bullet @ '' Used: '' @ mi_used d
                  @ ''\<newline>'' @ bullet @ '' Available: '' @ mi_available d
                  @ ''\<newline>'' @ bullet @ '' Cache: '' @ mi_cache d
             | None \<Rightarrow> [])
          @ ''\<newline>\<newline>*Top Memory Processes:*\<newline>''
          @ formatProcessList rt (Some (getTopMemoryProcesses h 8)) ''memory'']
      \<and> oneDecimal (toFixed1 rt (Num m))"
    if "atOrAbove (Some (Num m)) MEM_THRESHOLD \<and> m < 10 ^ 21"
  proof -
    have "oneDecimal (toFixed1 rt (Num m))"
      using that by (simp add: sample_oneDecimal [of m MEM_THRESHOLD] MEM_THRESHOLD_def)
    then show ?thesis using that memBranch_body [of "Num m" rt h] by (simp add: thresholds_shown)
  qed
  have swap: "map a_value (swapBranch rt h (Some (Num s))) =
        [''*Current Swap Usage: '' @ toFixed1 rt (Num s) @ ''%*\<newline>*Threshold: 50%*''
          @ (case getDetailedSwapInfo h of
               Some d \<Rightarrow> ''\<newline>*Swap Breakdown:*\<newline>'' @ bullet @ '' Total: '' @ sw_total d
                  @ ''\<newline>'' @ bullet @ '' Used: '' @ sw_used d
                  @ ''\<newline>'' @ bullet @ '' Free: '' @ sw_free d
             | None \<Rightarrow> [])]
      \<and> oneDecimal (toFixed1 rt (Num s))"
    if "atOrAbove (Some (Num s)) SWAP_THRESHOLD \<and> s < 10 ^ 21"
  proof -
    have "oneDecimal (toFixed1 rt (Num s))"
      using that by (simp add: sample_oneDecimal [of s SWAP_THRESHOLD] SWAP_THRESHOLD_def)
    then show ?thesis using that swapBranch_body [of "Num s" rt h] by (simp add: thresholds_shown)
  qed
  have plain: "\<not> oneDecimal ''90''" "\<not> oneDecimal ''50''"
    by (simp_all add: oneDecimal_def unsignedOneDecimal_def)
  from cpu mem swap plain show ?thesis by blast
qed

theorem values_one_decimal_thresholds_plain_witness:
  "atOrAbove (Some (Num 95)) CPU_THRESHOLD \<and> (95 :: rat) < 10 ^ 21
   \<and> minutes exampleRuntime (1700000360000 - 1700000000000) = Num 6 \<and> \<bar>6 :: rat\<bar> < 10 ^ 21
   \<and> atOrAbove (Some (Num (381 / 4))) MEM_THRESHOLD \<and> (381 / 4 :: rat) < 10 ^ 21
   \<and> atOrAbove (Some (Num 75)) SWAP_THRESHOLD \<and> (75 :: rat) < 10 ^ 21
   \<and> toFixed1 exampleRuntime (Num 95) = ''95.0'' \<and> oneDecimal ''95.0''
   \<and> toFixed1 exampleRuntime (minutes exampleRuntime (1700000360000 - 1700000000000)) = ''6.0'' \<and> oneDecimal ''6.0''
   \<and> toFixed1 exampleRuntime (Num (381 / 4)) = ''95.3'' \<and> oneDecimal ''95.3''
   \<and> toFixed1 exampleRuntime (Num 75) = ''75.0'' \<and> oneDecimal ''75.0''"
proof -
  have h: "atOrAbove (Some (Num 95)) CPU_THRESHOLD \<and> (95 :: rat) < 10 ^ 21
      \<and> minutes exampleRuntime (1700000360000 - 1700000000000) = Num 6 \<and> \<bar>6 :: rat\<bar> < 10 ^ 21"
    "atOrAbove (Some (Num (381 / 4))) MEM_THRESHOLD \<and> (381 / 4 :: rat) < 10 ^ 21"
    "atOrAbove (Some (Num 75)) SWAP_THRESHOLD \<and> (75 :: rat) < 10 ^ 21"
    by (simp_all add: atOrAbove_def CPU_THRESHOLD_def MEM_THRESHOLD_def SWAP_THRESHOLD_def
        minutes_def exampleRuntime_def)
  have e: "toFixed1 exampleRuntime (Num 95) = ''95.0''"
    "toFixed1 exampleRuntime (minutes exampleRuntime (1700000360000 - 1700000000000)) = ''6.0''"
    "toFixed1 exampleRuntime (Num (381 / 4)) = ''95.3''"
    "toFixed1 exampleRuntime (Num 75) = ''75.0''"
    by (simp_all add: eval_text exampleRuntime_def)
  note t = values_one_decimal_thresholds_plain [of 95 exampleRuntime 1700000360000 1700000000000 6
      "exampleHost ''95.0'' ''95.0'' ''75.0'' 1700000360000" "381 / 4" 75]
  from t h have "oneDecimal (toFixed1 exampleRuntime (Num 95))
      \<and> oneDecimal (toFixed1 exampleRuntime (minutes exampleRuntime (1700000360000 - 1700000000000)))
      \<and> oneDecimal (toFixed1 exampleRuntime (Num (381 / 4)))
      \<and> oneDecimal (toFixed1 exampleRuntime (Num 75))"
    by blast
  with h e show ?thesis by simp
qed

text \<open>
  The claim as it is written fails on the thresholds: in the cycle of the example,
  where all three descriptors are produced, the text each body displays after
  "Threshold: " is 90, 90 and 50, none of them with a decimal place.
\<close>

theorem thresholds_one_decimal_counterexample:
  "map (\<lambda>a. displayedAfter ''*Threshold: '' (a_value a))
      (cycleAlerts exampleRuntime (exampleHost ''95.0'' ''95.0'' ''75.0'' 1700000360000)
        (exampleWorld (Some 1700000000000) None))
     = [Some ''90'', Some ''90'', Some ''50'']
   \<and> \<not> oneDecimal ''90'' \<and> \<not> oneDecimal ''50''"
proof -
  have "map (\<lambda>a. displayedAfter ''*Threshold: '' (a_value a))
      (cycleAlerts exampleRuntime (exampleHost ''95.0'' ''95.0'' ''75.0'' 1700000360000)
        (exampleWorld (Some 1700000000000) None))
     = map (displayedAfter ''*Threshold: '')
        (map a_value (cycleAlerts exampleRuntime (exampleHost ''95.0'' ''95.0'' ''75.0'' 1700000360000)
        (exampleWorld (Some 1700000000000) None)))"
    by (simp add: comp_def)
  also have "\<dots> = [Some ''90'', Some ''90'', Some ''50'']"
    unfolding example_cycle_bodies by (simp add: displayedAfter_def bullet_def)
  finally show ?thesis
    by (simp add: oneDecimal_def unsignedOneDecimal_def)
qed

end
